theory Spec2Isabelle
  imports Complex_Main "HOL-Library.Multiset" "HOL-Library.Monad_Syntax"
begin

section \<open>Numbers\<close>

text \<open>
  The bot is written in TypeScript; every price, probability and size is a JavaScript
  number, an IEEE 754 double. Where a statement is an order between values, a shape or
  an independence, the development reads the numbers as exact reals: the theorems are
  then about the arithmetic the source writes down. Where a statement is an equality
  between computed values, rounding decides, and the Kelly sizing of utils.ts is given
  a second time in binary64 arithmetic (below).
  Timestamps are integers (milliseconds since the epoch, inside the range of \<open>Date\<close>).

  One place where HOL and JavaScript disagree is written out: HOL's \<open>x / 0\<close> is \<open>0\<close>,
  JavaScript's is \<open>NaN\<close> or an infinity. \<open>jsdiv\<close> returns \<open>None\<close> exactly when the
  denominator is zero, and a value computed from such a quotient stays \<open>None\<close>:
  \<open>Some v\<close> means that no division by zero happened on the way to \<open>v\<close>.
\<close>

definition jsdiv :: "real \<Rightarrow> real \<Rightarrow> real option" where
  "jsdiv a b = (if b = 0 then None else Some (a / b))"

subsection \<open>IEEE 754 binary64\<close>

text \<open>
  A double is a real number with a 53-bit significand and an exponent between -1022
  and 1023, an infinity, or \<open>NaN\<close>. Zero carries no sign here. The two zeros compare
  equal, and the sign of a zero shows only in \<open>x / 0\<close> and in \<open>Math.min(-0, 0)\<close>; the
  Kelly sizing divides by numbers that are not zero when its arguments are doubles
  (\<open>marketPrice\<close> after the boundary checks, and the odds \<open>b\<close>, which are at least
  \<open>2 ^ -53\<close>), and takes the minimum of two numbers that are not negative.
\<close>

datatype f64 = Finite real | PosInf | NegInf | NaN

definition pow2 :: "int \<Rightarrow> real" where
  "pow2 e = (if 0 \<le> e then 2 ^ nat e else 1 / 2 ^ nat (- e))"

text \<open>The binary exponent of a non-zero real: \<open>2 ^ e \<le> |x| < 2 ^ (e + 1)\<close>.\<close>

definition binexp :: "real \<Rightarrow> int" where
  "binexp x = \<lfloor>log 2 \<bar>x\<bar>\<rfloor>"

text \<open>Rounding to the nearest integer, a tie to the even one.\<close>

definition roundHalfEven :: "real \<Rightarrow> int" where
  "roundHalfEven t =
     (let n = \<lfloor>t\<rfloor>; r = t - of_int n
      in if r < 1 / 2 then n
         else if r > 1 / 2 then n + 1
         else if even n then n else n + 1)"

text \<open>
  The exponent of the unit in the last place: 52 below the binary exponent for a normal
  number, -1074 for a subnormal one.
\<close>

definition quantumExp :: "real \<Rightarrow> int" where
  "quantumExp x = max (binexp x) (- 1022) - 52"

text \<open>
  Round to nearest, ties to even, the rounding of every JavaScript operation: the
  nearest multiple of the unit in the last place, and an infinity when that is
  \<open>2 ^ 1024\<close> or more.
\<close>

definition roundToDouble :: "real \<Rightarrow> f64" where
  "roundToDouble x =
     (if x = 0 then Finite 0
      else
        let q = quantumExp x;
            y = of_int (roundHalfEven (x / pow2 q)) * pow2 q
        in if \<bar>y\<bar> \<ge> pow2 1024 then (if x > 0 then PosInf else NegInf)
           else Finite y)"

text \<open>A decimal literal of the source denotes the double nearest to it.\<close>

definition lit :: "real \<Rightarrow> f64" where
  "lit x = roundToDouble x"

text \<open>\<open>a <= b\<close> and \<open>a >= b\<close>: false when either side is \<open>NaN\<close>.\<close>

fun fle :: "f64 \<Rightarrow> f64 \<Rightarrow> bool" where
  "fle NaN b = False"
| "fle a NaN = False"
| "fle NegInf b = True"
| "fle a PosInf = True"
| "fle PosInf b = False"
| "fle a NegInf = False"
| "fle (Finite a) (Finite b) = (a \<le> b)"

definition fge :: "f64 \<Rightarrow> f64 \<Rightarrow> bool" where
  "fge a b = fle b a"

text \<open>\<open>a - b\<close>, \<open>a * b\<close> and \<open>a / b\<close>, with the special values of IEEE 754.\<close>

fun fsub :: "f64 \<Rightarrow> f64 \<Rightarrow> f64" where
  "fsub NaN b = NaN"
| "fsub a NaN = NaN"
| "fsub PosInf PosInf = NaN"
| "fsub NegInf NegInf = NaN"
| "fsub PosInf b = PosInf"
| "fsub NegInf b = NegInf"
| "fsub a PosInf = NegInf"
| "fsub a NegInf = PosInf"
| "fsub (Finite a) (Finite b) = roundToDouble (a - b)"

fun fneg :: "f64 \<Rightarrow> f64" where
  "fneg NaN = NaN"
| "fneg PosInf = NegInf"
| "fneg NegInf = PosInf"
| "fneg (Finite a) = Finite (- a)"

fun fmul :: "f64 \<Rightarrow> f64 \<Rightarrow> f64" where
  "fmul NaN b = NaN"
| "fmul a NaN = NaN"
| "fmul (Finite a) (Finite b) = roundToDouble (a * b)"
| "fmul (Finite a) b = (if a = 0 then NaN else if 0 < a then b else fneg b)"
| "fmul a (Finite b) = (if b = 0 then NaN else if 0 < b then a else fneg a)"
| "fmul PosInf b = b"
| "fmul NegInf b = fneg b"

fun fdiv :: "f64 \<Rightarrow> f64 \<Rightarrow> f64" where
  "fdiv NaN b = NaN"
| "fdiv a NaN = NaN"
| "fdiv (Finite a) (Finite b) =
     (if b = 0 then (if a = 0 then NaN else if 0 < a then PosInf else NegInf)
      else roundToDouble (a / b))"
| "fdiv (Finite a) b = Finite 0"
| "fdiv a (Finite b) = (if 0 \<le> b then a else fneg a)"
| "fdiv a b = NaN"

text \<open>\<open>Math.min(a, b)\<close>: \<open>NaN\<close> when either argument is.\<close>

fun fmin :: "f64 \<Rightarrow> f64 \<Rightarrow> f64" where
  "fmin NaN b = NaN"
| "fmin a NaN = NaN"
| "fmin a b = (if fle a b then a else b)"

section \<open>utils.ts: Kelly sizing and window alignment\<close>

text \<open>
  \<open>kellyBetSize(probWin, marketPrice, kellyFraction = 0.25, maxFraction = 0.10)\<close>.
  After the two boundary checks \<open>marketPrice\<close> lies strictly between 0 and 1, so neither
  \<open>marketPrice\<close> nor the odds \<open>b\<close> is zero and the two divisions are ordinary ones.
\<close>

definition kellyBetSize :: "real \<Rightarrow> real \<Rightarrow> real \<Rightarrow> real \<Rightarrow> real" where
  "kellyBetSize probWin marketPrice kellyFraction maxFraction =
     (if probWin \<le> 0 \<or> probWin \<ge> 1 then 0
      else if marketPrice \<le> 0 \<or> marketPrice \<ge> 1 then 0
      else
        let b = (1 - marketPrice) / marketPrice;
            q = 1 - probWin;
            fullKelly = (b * probWin - q) / b
        in if fullKelly \<le> 0 then 0
           else
             let adjustedKelly = fullKelly * kellyFraction
             in min adjustedKelly maxFraction)"

text \<open>\<open>calculateBetSize\<close> calls \<open>kellyBetSize(probWin, marketPrice)\<close>: both defaults apply.\<close>

definition calculateBetSize :: "real \<Rightarrow> real \<Rightarrow> real \<Rightarrow> real" where
  "calculateBetSize bankroll probWin marketPrice =
     (let fraction = kellyBetSize probWin marketPrice 0.25 0.10
      in bankroll * fraction)"

text \<open>
  The full Kelly fraction as the specification writes it,
  \<open>f = (b p - (1 - p)) / b\<close> with \<open>b = (1 - marketPrice) / marketPrice\<close>;
  it is compared with the source's local \<open>fullKelly\<close> below.
\<close>

definition spec_odds :: "real \<Rightarrow> real" where
  "spec_odds marketPrice = (1 - marketPrice) / marketPrice"

definition spec_fullKelly :: "real \<Rightarrow> real \<Rightarrow> real" where
  "spec_fullKelly p marketPrice =
     (spec_odds marketPrice * p - (1 - p)) / spec_odds marketPrice"

text \<open>
  The same two functions in the arithmetic they run in: every comparison, subtraction,
  multiplication and division is the binary64 one, \<open>0\<close> and \<open>1\<close> are exact, and the
  defaults \<open>0.25\<close> and \<open>0.10\<close> are the doubles nearest to the literals.
\<close>

definition kellyBetSize64 :: "f64 \<Rightarrow> f64 \<Rightarrow> f64 \<Rightarrow> f64 \<Rightarrow> f64" where
  "kellyBetSize64 probWin marketPrice kellyFraction maxFraction =
     (if fle probWin (Finite 0) \<or> fge probWin (Finite 1) then Finite 0
      else if fle marketPrice (Finite 0) \<or> fge marketPrice (Finite 1) then Finite 0
      else
        let b = fdiv (fsub (Finite 1) marketPrice) marketPrice;
            q = fsub (Finite 1) probWin;
            fullKelly = fdiv (fsub (fmul b probWin) q) b
        in if fle fullKelly (Finite 0) then Finite 0
           else
             let adjustedKelly = fmul fullKelly kellyFraction
             in fmin adjustedKelly maxFraction)"

definition calculateBetSize64 :: "f64 \<Rightarrow> f64 \<Rightarrow> f64 \<Rightarrow> f64" where
  "calculateBetSize64 bankroll probWin marketPrice =
     (let fraction = kellyBetSize64 probWin marketPrice (lit 0.25) (lit 0.10)
      in fmul bankroll fraction)"

text \<open>
  The full Kelly fraction of the specification, \<open>f = (b p - (1 - p)) / b\<close> with
  \<open>b = (1 - marketPrice) / marketPrice\<close>, with every operation rounded.
\<close>

definition odds64 :: "f64 \<Rightarrow> f64" where
  "odds64 marketPrice = fdiv (fsub (Finite 1) marketPrice) marketPrice"

definition fullKelly64 :: "f64 \<Rightarrow> f64 \<Rightarrow> f64" where
  "fullKelly64 p marketPrice =
     fdiv (fsub (fmul (odds64 marketPrice) p) (fsub (Finite 1) p)) (odds64 marketPrice)"

text \<open>
  \<open>get15MinWindowStart(date)\<close> works on a \<open>Date\<close>; the model works on its time value.
  \<open>getUTCMinutes\<close> is ECMAScript's \<open>MinFromTime\<close>, and \<open>setUTCMinutes(min, sec, ms)\<close>
  rebuilds the time value from the day and the hour of the old one and the three new
  fields (\<open>MakeDate(Day(t), MakeTime(HourFromTime(t), min, sec, ms))\<close>). Integer
  \<open>div\<close> rounds down, as \<open>Math.floor\<close> does.
\<close>

definition getUTCMinutes :: "int \<Rightarrow> int" where
  "getUTCMinutes t = (t div 60000) mod 60"

definition getUTCHours :: "int \<Rightarrow> int" where
  "getUTCHours t = (t div 3600000) mod 24"

definition setUTCMinutes :: "int \<Rightarrow> int \<Rightarrow> int \<Rightarrow> int \<Rightarrow> int" where
  "setUTCMinutes t minute sec ms =
     (t div 86400000) * 86400000 + getUTCHours t * 3600000
       + minute * 60000 + sec * 1000 + ms"

definition get15MinWindowStart :: "int \<Rightarrow> int" where
  "get15MinWindowStart date =
     (let d = date;
          minutes = getUTCMinutes d;
          windowStartMinute = (minutes div 15) * 15
      in setUTCMinutes d windowStartMinute 0 0)"

section \<open>priceFeed.ts: candles and the health heartbeat\<close>

record Candle15m =
  timestamp :: int
  openPrice :: real
  high :: real
  low :: real
  close :: real
  volume :: real

text \<open>
  The module state of priceFeed.ts. \<open>currentCandle\<close> is declared \<open>Partial<Candle15m> | null\<close>,
  but its only constructor (in \<open>aggregateTo15Min\<close>) sets all six fields, so the
  \<open>??\<close> defaults of the update branch never apply and the open candle is a full candle.
  \<open>chainlinkFeed\<close> records whether the contract handle is non-null.
\<close>

record feed_state =
  latestPrice :: real
  lastUpdateTime :: int
  candles15m :: "Candle15m list"
  currentCandle :: "Candle15m option"
  chainlinkFeed :: bool
  chainlinkFailureCount :: nat

definition MAX_CHAINLINK_FAILURES :: nat where
  "MAX_CHAINLINK_FAILURES = 3"

text \<open>
  \<open>fetchChainlinkPrice\<close>. The RPC round trip is the argument \<open>rpc\<close>: \<open>Some (answer, decimals)\<close>
  when \<open>latestRoundData\<close> and \<open>decimals\<close> both return, \<open>None\<close> when either throws or the
  five-second timeout wins the race. The function returns the price (or null) and the
  new module state. The test \<open>!feed.latestRoundData || !feed.decimals\<close> is left out:
  the handle is built from an ABI that declares both functions.
\<close>

definition fetchChainlinkPrice :: "(int \<times> nat) option \<Rightarrow> feed_state \<Rightarrow> real option \<times> feed_state" where
  "fetchChainlinkPrice rpc s =
     (if \<not> chainlinkFeed s \<or> chainlinkFailureCount s \<ge> MAX_CHAINLINK_FAILURES then (None, s)
      else
        case rpc of
          Some (answer, decimals) \<Rightarrow>
            (let price = real_of_int answer / 10 ^ decimals
             in (Some price, s\<lparr>chainlinkFailureCount := 0\<rparr>))
        | None \<Rightarrow>
            (let s1 = s\<lparr>chainlinkFailureCount := chainlinkFailureCount s + 1\<rparr>;
                 s2 = (if chainlinkFailureCount s1 \<ge> MAX_CHAINLINK_FAILURES
                       then s1\<lparr>chainlinkFeed := False\<rparr> else s1)
             in (None, s2)))"

text \<open>
  The polling timer of \<open>startPriceFeed\<close>:
  \<open>setInterval(async () => { await fetchChainlinkPrice(); }, PRICE_POLL_INTERVAL_MS)\<close>.
  The returned price is dropped.
\<close>

definition chainlinkPoll :: "(int \<times> nat) option \<Rightarrow> feed_state \<Rightarrow> feed_state" where
  "chainlinkPoll rpc s = snd (fetchChainlinkPrice rpc s)"

text \<open>
  \<open>aggregateTo15Min(timestamp, open, high, low, close, volume)\<close>. A candle whose
  timestamp is 0 is falsy in the test \<open>currentCandle && currentCandle.timestamp\<close> and is
  not pushed. The history keeps the latest 100 candles.
\<close>

definition aggregateTo15Min ::
  "int \<Rightarrow> real \<Rightarrow> real \<Rightarrow> real \<Rightarrow> real \<Rightarrow> real \<Rightarrow> feed_state \<Rightarrow> feed_state" where
  "aggregateTo15Min ts opn hi lo cl vol s =
     (let windowTs = get15MinWindowStart ts;
          fresh = \<lparr>timestamp = windowTs, openPrice = opn, high = hi, low = lo,
                   close = cl, volume = vol\<rparr>
      in case currentCandle s of
           None \<Rightarrow> s\<lparr>currentCandle := Some fresh\<rparr>
         | Some cur \<Rightarrow>
             if timestamp cur \<noteq> windowTs then
               (let s1 = (if timestamp cur \<noteq> 0 then
                            (let pushed = candles15m s @ [cur]
                             in s\<lparr>candles15m :=
                                   (if length pushed > 100 then tl pushed else pushed)\<rparr>)
                          else s)
                in s1\<lparr>currentCandle := Some fresh\<rparr>)
             else
               s\<lparr>currentCandle :=
                   Some (cur\<lparr>high := max (high cur) hi, low := min (low cur) lo,
                              close := cl, volume := volume cur + vol\<rparr>)\<rparr>)"

text \<open>A kline message of the stream, already parsed: \<open>k.t, k.o, k.h, k.l, k.c, k.v\<close>.\<close>

record kline =
  k_t :: int
  k_o :: real
  k_h :: real
  k_l :: real
  k_c :: real
  k_v :: real

text \<open>The \<open>message\<close> handler of the WebSocket, for a message with \<open>e = "kline"\<close>.\<close>

definition onKlineMessage :: "int \<Rightarrow> kline \<Rightarrow> feed_state \<Rightarrow> feed_state" where
  "onKlineMessage now k s =
     aggregateTo15Min (k_t k) (k_o k) (k_h k) (k_l k) (k_c k) (k_v k)
       (s\<lparr>latestPrice := k_c k, lastUpdateTime := now\<rparr>)"

text \<open>Ticks applied one after the other, in the order of the list.\<close>

definition aggregateAll :: "kline list \<Rightarrow> feed_state \<Rightarrow> feed_state" where
  "aggregateAll ks s =
     fold (\<lambda>k. aggregateTo15Min (k_t k) (k_o k) (k_h k) (k_l k) (k_c k) (k_v k)) ks s"

definition get15MinCandles :: "feed_state \<Rightarrow> Candle15m list" where
  "get15MinCandles s = candles15m s"

definition getCurrentPrice :: "feed_state \<Rightarrow> real" where
  "getCurrentPrice s = latestPrice s"

text \<open>\<open>isPriceFeedHealthy\<close>; \<open>now\<close> is the reading of \<open>Date.now()\<close>.\<close>

definition isPriceFeedHealthy :: "int \<Rightarrow> feed_state \<Rightarrow> bool" where
  "isPriceFeedHealthy now s = (now - lastUpdateTime s < 60000 \<and> latestPrice s > 0)"

text \<open>The module state when priceFeed.ts is loaded.\<close>

definition initialFeed :: feed_state where
  "initialFeed =
     \<lparr>latestPrice = 0, lastUpdateTime = 0, candles15m = [], currentCandle = None,
      chainlinkFeed = False, chainlinkFailureCount = 0\<rparr>"

text \<open>
  For the statements about aggregation: the high (low) of the open candle when it already
  belongs to the window that starts at \<open>b\<close>, as a list of at most one element.
\<close>

definition openHigh :: "int \<Rightarrow> feed_state \<Rightarrow> real list" where
  "openHigh b s = (case currentCandle s of
       Some c \<Rightarrow> if timestamp c = b then [high c] else [] | None \<Rightarrow> [])"

definition openLow :: "int \<Rightarrow> feed_state \<Rightarrow> real list" where
  "openLow b s = (case currentCandle s of
       Some c \<Rightarrow> if timestamp c = b then [low c] else [] | None \<Rightarrow> [])"

text \<open>Two ticks of the window that starts at 900000 ms.\<close>

definition tickA :: kline where
  "tickA = \<lparr>k_t = 900000, k_o = 100, k_h = 105, k_l = 99, k_c = 101, k_v = 2\<rparr>"

definition tickB :: kline where
  "tickB = \<lparr>k_t = 1799999, k_o = 101, k_h = 103, k_l = 95, k_c = 97, k_v = 3\<rparr>"

text \<open>
  A process whose stream never connected and whose history fetch failed, with the
  Chainlink contract handle set up by \<open>initChainlink\<close>.
\<close>

definition feedChainlinkOnly :: feed_state where
  "feedChainlinkOnly = initialFeed\<lparr>chainlinkFeed := True\<rparr>"

section \<open>model.ts: the feature builder\<close>

text \<open>
  \<open>values.slice(-period)\<close>: the last \<open>period\<close> elements, the whole array when it is
  shorter, and (since \<open>-0\<close> is \<open>0\<close>) the whole array when \<open>period\<close> is 0.
\<close>

definition sliceLast :: "nat \<Rightarrow> 'a list \<Rightarrow> 'a list" where
  "sliceLast period values =
     (if period = 0 then values else drop (length values - period) values)"

text \<open>
  \<open>xs[i] ?? d\<close>: the element when the index is inside the array, the default when the
  read gives \<open>undefined\<close>.
\<close>

definition indexOr :: "'a list \<Rightarrow> int \<Rightarrow> 'a \<Rightarrow> 'a" where
  "indexOr xs i d = (if 0 \<le> i \<and> i < int (length xs) then xs ! nat i else d)"

text \<open>
  \<open>rsi(closes, period)\<close>. The loop runs \<open>i\<close> from \<open>closes.length - period\<close> to
  \<open>closes.length - 1\<close> and carries \<open>(gains, losses)\<close>. The quotient \<open>gains / losses\<close>
  comes after the test \<open>losses === 0\<close>; \<open>100 / (1 + rs)\<close> has no test in front of it.
\<close>

definition rsiStep :: "real list \<Rightarrow> nat \<Rightarrow> real \<times> real \<Rightarrow> real \<times> real" where
  "rsiStep closes i acc =
     (let change = indexOr closes (int i) 0 - indexOr closes (int i - 1) 0
      in if change > 0 then (fst acc + change, snd acc) else (fst acc, snd acc - change))"

definition rsi :: "real list \<Rightarrow> nat \<Rightarrow> real option" where
  "rsi closes period =
     (if length closes < period + 1 then Some 50
      else
        let acc = fold (rsiStep closes) [length closes - period ..< length closes] (0, 0);
            gains = fst acc;
            losses = snd acc
        in if losses = 0 then Some 100
           else
             let rs = gains / losses
             in map_option (\<lambda>q. 100 - q) (jsdiv 100 (1 + rs)))"

text \<open>\<open>ema(values, period)\<close>; the periods passed are the literals 4, 8, 9, 12 and 26.\<close>

definition ema :: "real list \<Rightarrow> real \<Rightarrow> real" where
  "ema values period =
     (case values of
        [] \<Rightarrow> 0
      | v0 # rest \<Rightarrow>
          let k = 2 / (period + 1)
          in fold (\<lambda>v result. v * k + result * (1 - k)) rest v0)"

text \<open>
  \<open>sma(values, period)\<close> divides by \<open>slice.length\<close> with no test: on an empty array it
  is \<open>0 / 0\<close>. \<open>reduce((a, b) => a + b, 0)\<close> is the sum of the slice.
\<close>

definition sma :: "real list \<Rightarrow> nat \<Rightarrow> real option" where
  "sma values period =
     (let slice = sliceLast period values
      in jsdiv (sum_list slice) (real (length slice)))"

text \<open>\<open>stdDev(values)\<close>: both divisions come after the test \<open>values.length === 0\<close>.\<close>

definition stdDev :: "real list \<Rightarrow> real" where
  "stdDev values =
     (if length values = 0 then 0
      else
        let mean = sum_list values / real (length values);
            sqDiffs = map (\<lambda>v. (v - mean) ^ 2) values
        in sqrt (sum_list sqDiffs / real (length values)))"

text \<open>
  \<open>atr(candles, period)\<close>: the true ranges of the candles 1 to \<open>length - 1\<close>, each with
  its predecessor, then \<open>sma\<close> of them.
\<close>

definition trueRange :: "Candle15m \<Rightarrow> Candle15m \<Rightarrow> real" where
  "trueRange prv cur =
     max (high cur - low cur) (max \<bar>high cur - close prv\<bar> \<bar>low cur - close prv\<bar>)"

definition atr :: "Candle15m list \<Rightarrow> nat \<Rightarrow> real option" where
  "atr candles period =
     (let trs = map (\<lambda>i. trueRange (candles ! (i - 1)) (candles ! i)) [1 ..< length candles]
      in sma trs period)"

record ModelMetadata =
  feature_names :: "string list"
  n_features :: nat

datatype error =
    InsufficientHistory nat
  | NoData
  | ModelNotLoaded
  | InferenceError
  | ReferenceError string

datatype log_msg = FeatureCountMismatch nat nat | FeaturesPrepared nat

definition eps :: real where
  "eps = 1 / 10 ^ 10"

text \<open>The loop \<open>while (features.length < expectedFeatures) features.push(0)\<close>.\<close>

function padFeatures :: "nat \<Rightarrow> real option list \<Rightarrow> real option list" where
  "padFeatures expectedFeatures features =
     (if length features < expectedFeatures
      then padFeatures expectedFeatures (features @ [Some 0])
      else features)"
  by pat_completeness auto
termination
  by (relation "measure (\<lambda>(expectedFeatures, features). expectedFeatures - length features)") auto

declare padFeatures.simps [simp del]

text \<open>
  The 32 features, in the order in which \<open>prepareFeatures\<close> pushes them. \<open>None\<close> marks
  a feature whose computation divided by zero.
\<close>

definition computeFeatures :: "Candle15m list \<Rightarrow> Candle15m \<Rightarrow> real option list" where
  "computeFeatures candles lastC =
     (let closes = map close candles;
          volumes = map volume candles;
          lastClose = close lastC;
          lastOpen = openPrice lastC;
          lastHigh = high lastC;
          lastLow = low lastC;
          lastVolume = volume lastC;
          returns = map (\<lambda>period.
                      let prevClose = indexOr closes (int (length closes) - 1 - period) lastClose
                      in jsdiv (lastClose - prevClose) prevClose) [1, 2, 4, 8];
          bodyRange = lastHigh - lastLow + eps;
          shape = [jsdiv (lastClose - lastOpen) bodyRange,
                   jsdiv (lastHigh - max lastClose lastOpen) bodyRange,
                   jsdiv (min lastClose lastOpen - lastLow) bodyRange,
                   Some (if lastClose \<ge> lastOpen then 1 else 0)];
          rsis = [rsi closes 7, rsi closes 14];
          ema12 = ema closes 12;
          ema26 = ema closes 26;
          macdLine = ema12 - ema26;
          macdSignal = ema [macdLine] 9;
          macd = [Some macdLine, Some macdSignal, Some (macdLine - macdSignal)];
          bbMiddle = sma closes 20;
          bbStd = stdDev (sliceLast 20 closes);
          bbUpper = map_option (\<lambda>m. m + 2 * bbStd) bbMiddle;
          bbLower = map_option (\<lambda>m. m - 2 * bbStd) bbMiddle;
          bollinger = [do { u \<leftarrow> bbUpper; l \<leftarrow> bbLower; jsdiv (lastClose - l) (u - l + eps) },
                       do { u \<leftarrow> bbUpper; l \<leftarrow> bbLower; m \<leftarrow> bbMiddle; jsdiv (u - l) m }];
          volatility = [jsdiv (stdDev (sliceLast 4 closes)) lastClose,
                        jsdiv (stdDev (sliceLast 8 closes)) lastClose,
                        do { a \<leftarrow> atr candles 7; jsdiv a lastClose }];
          volumeSma8 = sma volumes 8;
          prevVolume = indexOr volumes (int (length volumes) - 2) lastVolume;
          volumeFs = [do { v \<leftarrow> volumeSma8; jsdiv lastVolume (v + eps) },
                      jsdiv (lastVolume - prevVolume) (prevVolume + eps)];
          close4Ago = indexOr closes (int (length closes) - 5) lastClose;
          momentum = [Some (lastClose - close4Ago),
                      jsdiv (lastClose - close4Ago) (close4Ago + eps)];
          ema4 = ema closes 4;
          ema8 = ema closes 8;
          emas = [Some ema4, Some ema8, jsdiv lastClose ema4, jsdiv lastClose ema8,
                  Some (if ema4 > ema8 then 1 else 0)];
          mean8 = sma closes 8;
          std8 = stdDev (sliceLast 8 closes);
          zscore = [do { m \<leftarrow> mean8; jsdiv (lastClose - m) (std8 + eps) }];
          hour = getUTCHours (timestamp lastC);
          minute = getUTCMinutes (timestamp lastC);
          timeFs = [Some (sin (2 * pi * real_of_int hour / 24)),
                    Some (cos (2 * pi * real_of_int hour / 24)),
                    Some (sin (2 * pi * real_of_int minute / 60)),
                    Some (cos (2 * pi * real_of_int minute / 60))]
      in returns @ shape @ rsis @ macd @ bollinger @ volatility @ volumeFs @ momentum
           @ emas @ zscore @ timeFs)"

text \<open>
  \<open>prepareFeatures(candles)\<close>, with the module variable \<open>metadata\<close> as an argument. It
  returns the lines it logs and the vector, or the error it throws. \<open>n_features\<close> is a
  count, so \<open>features.slice(0, expectedFeatures)\<close> is \<open>take\<close>.
\<close>

definition prepareFeatures ::
  "ModelMetadata option \<Rightarrow> Candle15m list \<Rightarrow> error + (log_msg list \<times> real option list)" where
  "prepareFeatures metadata candles =
     (if length candles < 20 then Inl (InsufficientHistory (length candles))
      else
        case (if candles = [] then None else Some (last candles)) of
          None \<Rightarrow> Inl NoData
        | Some lastC \<Rightarrow>
            (let features = computeFeatures candles lastC;
                 expectedFeatures = (case metadata of
                                       Some md \<Rightarrow> n_features md
                                     | None \<Rightarrow> length features);
                 warn = (if length features \<noteq> expectedFeatures
                         then [FeatureCountMismatch (length features) expectedFeatures]
                         else []);
                 padded = padFeatures expectedFeatures features;
                 logged = warn @ [FeaturesPrepared (length padded)]
             in Inr (logged, take expectedFeatures padded)))"

text \<open>
  Candle histories for the statements about the feature builder: a flat market at 100,
  and a history of twenty candles whose last but one closed at 0.
\<close>

definition flatCandle :: Candle15m where
  "flatCandle = \<lparr>timestamp = 900000, openPrice = 100, high = 100, low = 100,
                  close = 100, volume = 1\<rparr>"

definition zeroCloseCandle :: Candle15m where
  "zeroCloseCandle = \<lparr>timestamp = 900000, openPrice = 100, high = 100, low = 0,
                       close = 0, volume = 1\<rparr>"

definition zeroCloseHistory :: "Candle15m list" where
  "zeroCloseHistory = replicate 18 flatCandle @ [zeroCloseCandle, flatCandle]"

definition manifest :: "nat \<Rightarrow> ModelMetadata" where
  "manifest n = \<lparr>feature_names = [], n_features = n\<rparr>"

text \<open>
  The positions, in the feature vector, of the ratio features whose denominator carries
  the \<open>1e-10\<close>: candle body, upper wick, lower wick (4, 5, 6), Bollinger position (13),
  volume ratio and volume change (18, 19), rate of change (21), z-score (27); and of
  those whose denominator is a close, a mean or an EMA as it is: the returns (0 to 3),
  the Bollinger width (14), the three volatility ratios (15, 16, 17) and the two
  close-to-EMA ratios (24, 25).
\<close>

definition epsilonGuarded :: "nat list" where
  "epsilonGuarded = [4, 5, 6, 13, 18, 19, 21, 27]"

definition rawDenominators :: "nat list" where
  "rawDenominators = [0, 1, 2, 3, 14, 15, 16, 17, 24, 25]"

text \<open>The value of \<open>sma\<close> on an array that is not empty.\<close>

definition meanLast :: "nat \<Rightarrow> real list \<Rightarrow> real" where
  "meanLast period values =
     sum_list (sliceLast period values) / real (length (sliceLast period values))"

text \<open>
  The denominator of each ratio feature, copied from the division that computes the
  feature in \<open>prepareFeatures\<close>, by position in the vector.
\<close>

definition ratioDenominator :: "Candle15m list \<Rightarrow> nat \<Rightarrow> real" where
  "ratioDenominator candles i =
     (let closes = map close candles;
          volumes = map volume candles;
          lastC = last candles;
          lastClose = close lastC;
          n = int (length candles);
          bbMiddle = meanLast 20 closes;
          bbStd = stdDev (sliceLast 20 closes);
          bbUpper = bbMiddle + 2 * bbStd;
          bbLower = bbMiddle - 2 * bbStd
      in if i = 0 then indexOr closes (n - 1 - 1) lastClose
         else if i = 1 then indexOr closes (n - 1 - 2) lastClose
         else if i = 2 then indexOr closes (n - 1 - 4) lastClose
         else if i = 3 then indexOr closes (n - 1 - 8) lastClose
         else if i = 4 \<or> i = 5 \<or> i = 6 then high lastC - low lastC + eps
         else if i = 13 then bbUpper - bbLower + eps
         else if i = 14 then bbMiddle
         else if i = 15 \<or> i = 16 \<or> i = 17 then lastClose
         else if i = 18 then meanLast 8 volumes + eps
         else if i = 19 then indexOr volumes (n - 2) (volume lastC) + eps
         else if i = 21 then indexOr closes (n - 5) lastClose + eps
         else if i = 24 then ema closes 4
         else if i = 25 then ema closes 8
         else if i = 27 then stdDev (sliceLast 8 closes) + eps
         else 1)"

text \<open>A history of twenty candles of a market whose prices and volume are all 0.\<close>

definition zeroCandle :: Candle15m where
  "zeroCandle = \<lparr>timestamp = 900000, openPrice = 0, high = 0, low = 0, close = 0,
                  volume = 0\<rparr>"

section \<open>config.ts\<close>

text \<open>
  The constants that config.ts reads from the environment, as one record: a run of the
  process is a value of it. \<open>CONFIG_BTC_UP_TOKEN_ID\<close> and \<open>CONFIG_BTC_DOWN_TOKEN_ID\<close>
  are the exports \<open>BTC_UP_TOKEN_ID\<close> and \<open>BTC_DOWN_TOKEN_ID\<close> of config.ts, which index.ts
  passes to \<open>checkLiquidity\<close>; polymarket.ts keeps variables of its own under the same
  names. \<open>MAX_API_ERRORS\<close> is a literal of config.ts.
\<close>

record config =
  POSITION_SIZE_USD :: real
  MIN_CONFIDENCE_UP :: real
  MIN_CONFIDENCE_DOWN :: real
  MAX_KELLY_FRACTION :: real
  BANKROLL :: real
  IS_PRODUCTION :: bool
  CONFIG_BTC_UP_TOKEN_ID :: string
  CONFIG_BTC_DOWN_TOKEN_ID :: string

definition MAX_API_ERRORS :: nat where
  "MAX_API_ERRORS = 3"

section \<open>polymarket.ts: liquidity and order placement\<close>

datatype side = BUY | SELL

record OrderRequest =
  tokenID :: string
  price :: real
  orderSize :: "real option"
  side :: side

record OrderResponse =
  orderID :: string
  status :: string

text \<open>
  What the broker sees: an order signed with the wallet key (\<open>signOrder\<close>) and an order
  posted to the orders endpoint (\<open>apiRequest("POST", ...)\<close>).
\<close>

datatype broker_event = Signed OrderRequest | Posted OrderRequest

text \<open>The module state of polymarket.ts, with the trace of what reached the broker.\<close>

record poly_state =
  BTC_UP_TOKEN_ID :: string
  BTC_DOWN_TOKEN_ID :: string
  totalOrders :: nat
  successfulOrders :: nat
  failedOrders :: nat
  totalVolume :: real
  brokerTrace :: "broker_event list"

text \<open>
  The answers of the outside world during one call of \<open>placeBetUp\<close> or \<open>placeBetDown\<close>:
  the prices endpoint (\<open>None\<close> when the fetch or the parse throws), whether \<open>signOrder\<close>
  returns, the response of the orders endpoint (\<open>None\<close> when \<open>apiRequest\<close> throws, which
  includes every non-2xx answer), and the reading of \<open>Date.now()\<close>.
\<close>

record broker_env =
  pricesAnswer :: "(real \<times> real) option"
  signReturns :: bool
  postAnswer :: "OrderResponse option"
  clock :: nat

text \<open>The decimal digits of a number, for \<open>`dry-run-${Date.now()}`\<close>.\<close>

fun showNat :: "nat \<Rightarrow> string" where
  "showNat n =
     (if n < 10 then [''0123456789'' ! n]
      else showNat (n div 10) @ [''0123456789'' ! (n mod 10)])"

declare showNat.simps [simp del]

text \<open>\<open>getMarketPrices\<close> returns \<open>{upPrice, downPrice}\<close> and never throws.\<close>

definition getMarketPrices :: "(real \<times> real) option \<Rightarrow> poly_state \<Rightarrow> real \<times> real" where
  "getMarketPrices answer st =
     (if BTC_UP_TOKEN_ID st = [] \<or> BTC_DOWN_TOKEN_ID st = [] then (0.5, 0.5)
      else case answer of Some prices \<Rightarrow> prices | None \<Rightarrow> (0.5, 0.5))"

text \<open>
  \<open>checkLiquidity(tokenId, sizeUsd, maxSlippage = 0.01)\<close> on the asks of the order book,
  each a pair of price and size; \<open>None\<close> is a book that could not be fetched or has no
  asks field. The loop over the asks stops at the first ask above the acceptable price
  and as soon as the value collected covers the order.
\<close>

record liquidity =
  sufficient :: bool
  availableSize :: real
  avgPrice :: real

fun walkAsks :: "real \<Rightarrow> real \<Rightarrow> (real \<times> real) list \<Rightarrow> real \<times> real \<Rightarrow> real \<times> real" where
  "walkAsks maxAcceptablePrice sizeUsd [] acc = acc"
| "walkAsks maxAcceptablePrice sizeUsd (ask # asks) acc =
     (if fst ask > maxAcceptablePrice then acc
      else
        let totalSize = fst acc + snd ask;
            totalValue = snd acc + fst ask * snd ask
        in if totalValue \<ge> sizeUsd then (totalSize, totalValue)
           else walkAsks maxAcceptablePrice sizeUsd asks (totalSize, totalValue))"

definition checkLiquidity :: "(real \<times> real) list option \<Rightarrow> real \<Rightarrow> real \<Rightarrow> liquidity" where
  "checkLiquidity orderBook sizeUsd maxSlippage =
     (case orderBook of
        None \<Rightarrow> \<lparr>sufficient = False, availableSize = 0, avgPrice = 0\<rparr>
      | Some [] \<Rightarrow> \<lparr>sufficient = False, availableSize = 0, avgPrice = 0\<rparr>
      | Some (best # rest) \<Rightarrow>
          (let bestAskPrice = fst best;
               maxAcceptablePrice = bestAskPrice * (1 + maxSlippage);
               acc = walkAsks maxAcceptablePrice sizeUsd (best # rest) (0, 0);
               totalSize = fst acc;
               totalValue = snd acc;
               avg = (if totalSize > 0 then totalValue / totalSize else 0)
           in \<lparr>sufficient = (totalValue \<ge> sizeUsd), availableSize = totalSize,
               avgPrice = avg\<rparr>))"

text \<open>
  \<open>placeBetUp(sizeUsd)\<close> and \<open>placeBetDown(sizeUsd)\<close> differ in the token and in the price
  they read; \<open>placeBet\<close> is their common body, with the token id and the price already
  chosen. Everything after \<open>totalOrders++\<close> is inside \<open>try\<close>: a throw of \<open>signOrder\<close> or
  of \<open>apiRequest\<close> ends in the \<open>catch\<close>, which counts a failed order and returns null.
\<close>

definition placeBet ::
  "config \<Rightarrow> broker_env \<Rightarrow> string \<Rightarrow> real \<Rightarrow> real \<Rightarrow> poly_state
     \<Rightarrow> OrderResponse option \<times> poly_state" where
  "placeBet cfg env token quoted sizeUsd st =
     (if token = [] then (None, st)
      else
        let st1 = st\<lparr>totalOrders := totalOrders st + 1\<rparr>;
            priceWithSlippage = min (quoted * 1.005) 0.99;
            shares = jsdiv sizeUsd priceWithSlippage
        in if \<not> IS_PRODUCTION cfg then
             (Some \<lparr>orderID = ''dry-run-'' @ showNat (clock env), status = ''simulated''\<rparr>,
              st1\<lparr>successfulOrders := successfulOrders st1 + 1,
                  totalVolume := totalVolume st1 + sizeUsd\<rparr>)
           else
             let order = \<lparr>tokenID = token, price = priceWithSlippage, orderSize = shares,
                          side = BUY\<rparr>
             in if \<not> signReturns env then
                  (None, st1\<lparr>failedOrders := failedOrders st1 + 1\<rparr>)
                else
                  let st2 = st1\<lparr>brokerTrace := brokerTrace st1 @ [Signed order]\<rparr>
                  in case postAnswer env of
                       None \<Rightarrow>
                         (None, st2\<lparr>failedOrders := failedOrders st2 + 1,
                                     brokerTrace := brokerTrace st2 @ [Posted order]\<rparr>)
                     | Some response \<Rightarrow>
                         (let st3 = st2\<lparr>brokerTrace := brokerTrace st2 @ [Posted order]\<rparr>
                          in if status response = ''matched'' \<or> status response = ''live''
                             then (Some response,
                                   st3\<lparr>successfulOrders := successfulOrders st3 + 1,
                                       totalVolume := totalVolume st3 + sizeUsd\<rparr>)
                             else (Some response,
                                   st3\<lparr>failedOrders := failedOrders st3 + 1\<rparr>)))"

definition placeBetUp ::
  "config \<Rightarrow> broker_env \<Rightarrow> real \<Rightarrow> poly_state \<Rightarrow> OrderResponse option \<times> poly_state" where
  "placeBetUp cfg env sizeUsd st =
     placeBet cfg env (BTC_UP_TOKEN_ID st) (fst (getMarketPrices (pricesAnswer env) st))
       sizeUsd st"

definition placeBetDown ::
  "config \<Rightarrow> broker_env \<Rightarrow> real \<Rightarrow> poly_state \<Rightarrow> OrderResponse option \<times> poly_state" where
  "placeBetDown cfg env sizeUsd st =
     placeBet cfg env (BTC_DOWN_TOKEN_ID st) (snd (getMarketPrices (pricesAnswer env) st))
       sizeUsd st"

section \<open>index.ts: the decision cycle\<close>

text \<open>The counters of index.ts.\<close>

record bot_state =
  lastTradedWindowId :: string
  apiErrorCount :: nat
  totalPredictions :: nat
  upBets :: nat
  downBets :: nat
  skippedBets :: nat

text \<open>The whole process: the module states of index.ts, polymarket.ts, priceFeed.ts and model.ts.\<close>

record world =
  counters :: bot_state
  poly :: poly_state
  feed :: feed_state
  modelMetadata :: "ModelMetadata option"

text \<open>
  What one call of \<open>executeTrade\<close> reads from outside the process. The clock is read
  once by \<open>canTrade\<close> (\<open>get15MinWindowId()\<close> and, inside \<open>isPriceFeedHealthy\<close>,
  \<open>Date.now()\<close>) and once more by \<open>recordTrade\<close> (\<open>get15MinWindowId()\<close>), after the
  awaits of the cycle. \<open>runModel\<close> is the ONNX session, a function of the feature
  vector that returns the probability of Up or throws. \<open>marketAnswer\<close> is the prices
  endpoint as read by step 4, \<open>orderBook\<close> the book endpoint for a token id, and
  \<open>broker\<close> the world during the call that places the order.
\<close>

record cycle_input =
  windowIdAtCheck :: string
  nowAtCheck :: int
  windowIdAtRecord :: string
  runModel :: "real option list \<Rightarrow> error + real"
  marketAnswer :: "(real \<times> real) option"
  orderBook :: "string \<Rightarrow> (real \<times> real) list option"
  broker :: broker_env

datatype refusal = TooManyApiErrors | WindowAlreadyTraded | PriceFeedUnhealthy

datatype skip_reason =
    NotAllowed refusal
  | TooFewCandles nat
  | PredictionFailed
  | VolatilityTooLow
  | KellyTooSmall
  | LiquidityInsufficient
  | ConfidenceOrEdgeInsufficient

datatype direction = Up | Down

text \<open>
  How a cycle ends: skipped for a reason, or with a call into \<open>placeBetUp\<close> or
  \<open>placeBetDown\<close>, recorded with the direction, the size and what the call returned
  (\<open>None\<close> for null), or with an exception that leaves \<open>executeTrade\<close> and is caught
  by the \<open>catch\<close> of \<open>mainLoop\<close>, which logs it and sleeps.
\<close>

datatype outcome =
    Skipped skip_reason
  | Submitted direction real "OrderResponse option"
  | Threw error

text \<open>\<open>canTrade\<close>: \<open>None\<close> when trading is allowed, the reason of the refusal otherwise.\<close>

definition canTrade :: "cycle_input \<Rightarrow> world \<Rightarrow> refusal option" where
  "canTrade inp w =
     (if apiErrorCount (counters w) \<ge> MAX_API_ERRORS then Some TooManyApiErrors
      else
        let currentWindowId = windowIdAtCheck inp
        in if currentWindowId = lastTradedWindowId (counters w) then Some WindowAlreadyTraded
           else if \<not> isPriceFeedHealthy (nowAtCheck inp) (feed w) then Some PriceFeedUnhealthy
           else None)"

definition recordTrade :: "cycle_input \<Rightarrow> bot_state \<Rightarrow> bot_state" where
  "recordTrade inp b = b\<lparr>lastTradedWindowId := windowIdAtRecord inp\<rparr>"

definition recordApiError :: "bot_state \<Rightarrow> bot_state" where
  "recordApiError b = b\<lparr>apiErrorCount := apiErrorCount b + 1\<rparr>"

text \<open>\<open>predict(candles)\<close> of model.ts: \<open>prepareFeatures\<close>, then \<open>runModel\<close>.\<close>

definition predict ::
  "ModelMetadata option \<Rightarrow> (real option list \<Rightarrow> error + real) \<Rightarrow> Candle15m list \<Rightarrow> error + real" where
  "predict md model candles =
     (case prepareFeatures md candles of
        Inl e \<Rightarrow> Inl e
      | Inr prepared \<Rightarrow> model (snd prepared))"

text \<open>
  The volatility filter, \<open>(high - low) / close < 0.001\<close>. For a close of 0 the
  JavaScript quotient is an infinity or \<open>NaN\<close>, and the comparison holds only for
  minus infinity, that is for \<open>high - low < 0\<close>.
\<close>

definition candleRangeTooLow :: "Candle15m \<Rightarrow> bool" where
  "candleRangeTooLow lastCandle =
     (if close lastCandle = 0 then high lastCandle - low lastCandle < 0
      else (high lastCandle - low lastCandle) / close lastCandle < 0.001)"

definition skipCycle :: "skip_reason \<Rightarrow> world \<Rightarrow> outcome \<times> world" where
  "skipCycle reason w =
     (Skipped reason, w\<lparr>counters := (counters w)\<lparr>skippedBets := skippedBets (counters w) + 1\<rparr>\<rparr>)"

text \<open>
  The two branches of step 7 run the same statements on the Up and on the Down side:
  \<open>betSide\<close> is that body, after the counter of the side has been incremented. Too small
  a Kelly size returns without counting a skip. The call that places the order
  returns null on every failure (its own \<open>catch\<close> swallows the throws), so the \<open>catch\<close>
  of \<open>executeTrade\<close> around it adds no case: a response records the trade, null records
  an API error.
\<close>

definition betSide ::
  "config \<Rightarrow> cycle_input \<Rightarrow> direction \<Rightarrow> real \<Rightarrow> real \<Rightarrow> world \<Rightarrow> outcome \<times> world" where
  "betSide cfg inp dir prob quoted w =
     (let betSize = calculateBetSize (BANKROLL cfg) prob quoted
      in if betSize < 1 then (Skipped KellyTooSmall, w)
         else
           let token = (case dir of Up \<Rightarrow> CONFIG_BTC_UP_TOKEN_ID cfg
                                  | Down \<Rightarrow> CONFIG_BTC_DOWN_TOKEN_ID cfg);
               liq = checkLiquidity (orderBook inp token) betSize 0.01
           in if \<not> sufficient liq then skipCycle LiquidityInsufficient w
              else
                let placed = (case dir of Up \<Rightarrow> placeBetUp cfg (broker inp) betSize (poly w)
                                        | Down \<Rightarrow> placeBetDown cfg (broker inp) betSize (poly w));
                    result = fst placed;
                    w1 = w\<lparr>poly := snd placed\<rparr>
                in case result of
                     Some response \<Rightarrow>
                       (Submitted dir betSize result, w1\<lparr>counters := recordTrade inp (counters w1)\<rparr>)
                   | None \<Rightarrow>
                       (Submitted dir betSize result, w1\<lparr>counters := recordApiError (counters w1)\<rparr>))"

text \<open>
  The bindings of the module scope of index.ts: the names it imports from
  priceFeed.js, model.js, polymarket.js, config.js and utils.js (index.ts:15-52), its
  seven state variables and its nine functions. Evaluating a call of a name that is
  neither bound there nor a global of the runtime throws a \<open>ReferenceError\<close>.
\<close>

definition indexScope :: "string list" where
  "indexScope =
     [''startPriceFeed'', ''stopPriceFeed'', ''get15MinCandles'', ''getCurrentPrice'',
      ''isPriceFeedHealthy'', ''fetchHistorical15mCandles'',
      ''loadModel'', ''isModelLoaded'', ''predict'',
      ''placeBetUp'', ''placeBetDown'', ''getMarketPrices'', ''findBTCMarket'',
      ''getPolyStats'', ''checkLiquidity'',
      ''MIN_CONFIDENCE_UP'', ''MIN_CONFIDENCE_DOWN'', ''BANKROLL'', ''MAX_API_ERRORS'',
      ''IS_PRODUCTION'', ''BTC_UP_TOKEN_ID'', ''BTC_DOWN_TOKEN_ID'',
      ''log'', ''sleep'', ''calculateBetSize'', ''formatUsd'', ''formatPct'',
      ''get15MinWindowId'', ''msUntilNextWindow'', ''isOptimalBettingTime'',
      ''getNext15MinWindowStart'', ''formatETTime'',
      ''isRunning'', ''lastTradedWindowId'', ''apiErrorCount'', ''totalPredictions'',
      ''upBets'', ''downBets'', ''skippedBets'',
      ''canTrade'', ''recordTrade'', ''recordApiError'', ''executeTrade'', ''logStats'',
      ''initialize'', ''mainLoop'', ''shutdown'', ''main'']"

definition resolveName :: "string \<Rightarrow> error + unit" where
  "resolveName name =
     (if name \<in> set indexScope then Inr () else Inl (ReferenceError name))"

text \<open>
  The statements of \<open>executeTrade\<close> from step 3 on (index.ts:134-259): the prediction,
  the market prices, the volatility filter and the two betting branches. \<open>candles\<close> is
  the history read in step 2; it has at least 20 candles there, so
  \<open>candles[candles.length - 1]\<close> is a candle. The log lines are left out.
\<close>

definition tradeFromPrediction ::
  "config \<Rightarrow> cycle_input \<Rightarrow> Candle15m list \<Rightarrow> world \<Rightarrow> outcome \<times> world" where
  "tradeFromPrediction cfg inp candles w =
     (case predict (modelMetadata w) (runModel inp) candles of
        Inl e \<Rightarrow> skipCycle PredictionFailed w
      | Inr probUp \<Rightarrow>
          let probDown = 1 - probUp;
              prices = getMarketPrices (marketAnswer inp) (poly w);
              upPrice = fst prices;
              downPrice = snd prices;
              upEdge = probUp - upPrice;
              downEdge = probDown - downPrice;
              lastCandle = last candles
          in if candleRangeTooLow lastCandle then skipCycle VolatilityTooLow w
             else if probUp > MIN_CONFIDENCE_UP cfg \<and> upEdge > 0.02 then
               betSide cfg inp Up probUp upPrice
                 (w\<lparr>counters := (counters w)\<lparr>upBets := upBets (counters w) + 1\<rparr>\<rparr>)
             else if probUp < MIN_CONFIDENCE_DOWN cfg \<and> downEdge > 0.02 then
               betSide cfg inp Down probDown downPrice
                 (w\<lparr>counters := (counters w)\<lparr>downBets := downBets (counters w) + 1\<rparr>\<rparr>)
             else skipCycle ConfidenceOrEdgeInsufficient w)"

text \<open>
  \<open>executeTrade\<close>. Steps 1 and 2 count the prediction, ask \<open>canTrade\<close> and test the
  length of the history. Then index.ts:125-126 reads

  \<^verbatim>\<open>const nextWindow = getNext15MinWindowStart();\<close>
  \<^verbatim>\<open>const currentWindow = get15MinWindowStart();\<close>

  outside any \<open>try\<close>. The first name is imported. The second is exported by utils.ts
  and imported by priceFeed.ts, but not by index.ts: evaluating the call throws,
  \<open>executeTrade\<close> is left with \<open>totalPredictions\<close> incremented and nothing else changed,
  and the statements from step 3 on are not reached. (The five log
  lines that follow, index.ts:128-132, would call \<open>formatETTime\<close>, which is imported
  but which the utils.ts at hand does not export; they are not reached either.)
\<close>

definition executeTrade :: "config \<Rightarrow> cycle_input \<Rightarrow> world \<Rightarrow> outcome \<times> world" where
  "executeTrade cfg inp w0 =
     (let w = w0\<lparr>counters := (counters w0)\<lparr>totalPredictions := totalPredictions (counters w0) + 1\<rparr>\<rparr>
      in case canTrade inp w of
           Some reason \<Rightarrow> skipCycle (NotAllowed reason) w
         | None \<Rightarrow>
             let candles = get15MinCandles (feed w)
             in if length candles < 20 then skipCycle (TooFewCandles (length candles)) w
                else
                  (case resolveName ''getNext15MinWindowStart'' of
                     Inl e \<Rightarrow> (Threw e, w)
                   | Inr nextWindow \<Rightarrow>
                       (case resolveName ''get15MinWindowStart'' of
                          Inl e \<Rightarrow> (Threw e, w)
                        | Inr currentWindow \<Rightarrow> tradeFromPrediction cfg inp candles w)))"

text \<open>A sequence of decision cycles, one per input, with the outcome of each.\<close>

fun runCycles :: "config \<Rightarrow> cycle_input list \<Rightarrow> world \<Rightarrow> outcome list \<times> world" where
  "runCycles cfg [] w = ([], w)"
| "runCycles cfg (inp # inps) w =
     (let step = executeTrade cfg inp w;
          rest = runCycles cfg inps (snd step)
      in (fst step # fst rest, snd rest))"

text \<open>An order submission is a call into \<open>placeBetUp\<close> or \<open>placeBetDown\<close>.\<close>

fun isSubmission :: "outcome \<Rightarrow> bool" where
  "isSubmission (Submitted dir sizeUsd result) = True"
| "isSubmission (Skipped reason) = False"
| "isSubmission (Threw e) = False"

text \<open>A submission that came back with an order response.\<close>

fun isAnswered :: "outcome \<Rightarrow> bool" where
  "isAnswered (Submitted dir sizeUsd (Some response)) = True"
| "isAnswered (Submitted dir sizeUsd None) = False"
| "isAnswered (Skipped reason) = False"
| "isAnswered (Threw e) = False"

text \<open>A submission that returned null: an order-submission failure.\<close>

fun isFailure :: "outcome \<Rightarrow> bool" where
  "isFailure (Submitted dir sizeUsd None) = True"
| "isFailure (Submitted dir sizeUsd (Some response)) = False"
| "isFailure (Skipped reason) = False"
| "isFailure (Threw e) = False"



text \<open>The four counters of \<open>getStats\<close>.\<close>

definition orderStats :: "poly_state \<Rightarrow> nat \<times> nat \<times> nat \<times> real" where
  "orderStats st = (totalOrders st, successfulOrders st, failedOrders st, totalVolume st)"

text \<open>
  A development configuration and a production one, a market found by \<open>findBTCMarket\<close>,
  and a broker that signs and answers \<open>matched\<close>.
\<close>

definition devConfig :: config where
  "devConfig =
     \<lparr>POSITION_SIZE_USD = 10, MIN_CONFIDENCE_UP = 0.55, MIN_CONFIDENCE_DOWN = 0.45,
      MAX_KELLY_FRACTION = 0.25, BANKROLL = 1000, IS_PRODUCTION = False,
      CONFIG_BTC_UP_TOKEN_ID = ''1001'', CONFIG_BTC_DOWN_TOKEN_ID = ''1002''\<rparr>"

definition prodConfig :: config where
  "prodConfig = devConfig\<lparr>IS_PRODUCTION := True\<rparr>"

definition marketFound :: poly_state where
  "marketFound =
     \<lparr>BTC_UP_TOKEN_ID = ''1001'', BTC_DOWN_TOKEN_ID = ''1002'', totalOrders = 0,
      successfulOrders = 0, failedOrders = 0, totalVolume = 0, brokerTrace = []\<rparr>"

definition matchingBroker :: broker_env where
  "matchingBroker =
     \<lparr>pricesAnswer = Some (0.5, 0.5), signReturns = True,
      postAnswer = Some \<lparr>orderID = ''0xabc'', status = ''matched''\<rparr>, clock = 7\<rparr>"

declare runCycles.simps(2) [simp del]

text \<open>
  What the statements from step 3 on leave behind, whatever their path: the error
  counter grows by one exactly on a failed submission, the traded window changes
  exactly on an answered one, a path without submission leaves polymarket.ts alone,
  and no path touches the price feed, the manifest or the token ids.
\<close>

definition cycleEffects :: "cycle_input \<Rightarrow> world \<Rightarrow> outcome \<times> world \<Rightarrow> bool" where
  "cycleEffects inp w r =
     (apiErrorCount (counters (snd r))
         = apiErrorCount (counters w) + (if isFailure (fst r) then 1 else 0)
      \<and> lastTradedWindowId (counters (snd r))
         = (if isAnswered (fst r) then windowIdAtRecord inp else lastTradedWindowId (counters w))
      \<and> (\<not> isSubmission (fst r) \<longrightarrow> poly (snd r) = poly w)
      \<and> feed (snd r) = feed w
      \<and> modelMetadata (snd r) = modelMetadata w
      \<and> BTC_UP_TOKEN_ID (poly (snd r)) = BTC_UP_TOKEN_ID (poly w)
      \<and> BTC_DOWN_TOKEN_ID (poly (snd r)) = BTC_DOWN_TOKEN_ID (poly w))"

text \<open>
  A world in which every check of the cycle passes: twenty candles with a range of
  1 percent, a price feed updated at time 0 and read at time 1000, a model that answers
  0.9, a market at 0.5 / 0.5, a deep order book. The Kelly fraction is at its cap and
  the size is 100. \<open>tradedWorld W\<close> has already traded the window \<open>W\<close>;
  \<open>trippedWorld\<close> has three API errors on its counter.
\<close>

definition livelyCandle :: Candle15m where
  "livelyCandle = \<lparr>timestamp = 900000, openPrice = 100, high = 101, low = 100,
                    close = 100, volume = 1\<rparr>"

definition freshCounters :: bot_state where
  "freshCounters =
     \<lparr>lastTradedWindowId = [], apiErrorCount = 0, totalPredictions = 0, upBets = 0,
      downBets = 0, skippedBets = 0\<rparr>"

definition tradingWorld :: world where
  "tradingWorld =
     \<lparr>counters = freshCounters,
      poly = marketFound,
      feed = initialFeed\<lparr>latestPrice := 100, lastUpdateTime := 0,
                         candles15m := replicate 20 livelyCandle\<rparr>,
      modelMetadata = None\<rparr>"

definition upCycle :: "string \<Rightarrow> broker_env \<Rightarrow> cycle_input" where
  "upCycle W env =
     \<lparr>windowIdAtCheck = W, nowAtCheck = 1000, windowIdAtRecord = W,
      runModel = (\<lambda>features. Inr 0.9), marketAnswer = Some (0.5, 0.5),
      orderBook = (\<lambda>token. Some [(0.5, 1000)]), broker = env\<rparr>"



section \<open>Kelly sizing: theorems\<close>





subsection \<open>Rounding\<close>

lemma pow2_powr: "pow2 e = 2 powr (of_int e)"
  by (simp add: pow2_def powr_real_of_int inverse_eq_divide)

lemma pow2_pos: "0 < pow2 e"
  by (simp add: pow2_powr)

lemma pow2_add: "pow2 (a + b) = pow2 a * pow2 b"
  by (simp add: pow2_powr powr_add)

lemma pow2_mono: "a \<le> b \<Longrightarrow> pow2 a \<le> pow2 b"
  by (simp add: pow2_powr)

lemma binexp_eq:
  assumes "pow2 e \<le> \<bar>x\<bar>" and "\<bar>x\<bar> < pow2 (e + 1)"
  shows "binexp x = e"
proof -
  have pos: "0 < \<bar>x\<bar>" using assms(1) pow2_pos [of e] by linarith
  have "\<lfloor>log 2 \<bar>x\<bar>\<rfloor> = e \<longleftrightarrow> 2 powr (of_int e) \<le> \<bar>x\<bar> \<and> \<bar>x\<bar> < 2 powr (of_int (e + 1))"
    using floor_log_eq_powr_iff [of "\<bar>x\<bar>" 2 e] pos by simp
  then show ?thesis using assms by (simp add: binexp_def pow2_powr)
qed

lemma roundHalfEven_near: "\<bar>of_int (roundHalfEven t) - t\<bar> \<le> 1 / 2"
  unfolding roundHalfEven_def Let_def by (auto simp add: abs_le_iff)

lemma roundToDouble_value:
  assumes lo: "pow2 e \<le> \<bar>x\<bar>" and hi: "\<bar>x\<bar> < pow2 (e + 1)"
    and range: "- 1022 \<le> e" "e \<le> 1000"
    and n: "roundHalfEven (x / pow2 (e - 52)) = n"
    and y: "y = of_int n * pow2 (e - 52)"
  shows "roundToDouble x = Finite y"
proof -
  have x0: "x \<noteq> 0" using lo pow2_pos [of e] by auto
  have q: "quantumExp x = e - 52"
    using binexp_eq [OF lo hi] range by (simp add: quantumExp_def)
  let ?t = "x / pow2 (e - 52)"
  have "pow2 (e + 1) = pow2 ((e - 52) + 53)" by (rule arg_cong [where f = pow2]) simp
  then have "pow2 (e + 1) = pow2 (e - 52) * pow2 53" by (simp only: pow2_add)
  then have t: "\<bar>?t\<bar> < pow2 53"
    using hi pow2_pos [of "e - 52"] by (simp add: pos_divide_less_eq mult.commute)
  have "\<bar>of_int n\<bar> \<le> \<bar>?t\<bar> + 1 / 2"
    using roundHalfEven_near [of ?t] n by linarith
  then have nb: "\<bar>of_int n :: real\<bar> < pow2 54"
    using t by (simp add: pow2_def)
  have "\<bar>y\<bar> = \<bar>of_int n\<bar> * pow2 (e - 52)"
    using pow2_pos [of "e - 52"] by (simp add: y abs_mult)
  also have "\<dots> < pow2 54 * pow2 (e - 52)"
    using nb pow2_pos [of "e - 52"] by (simp add: mult_strict_right_mono)
  also have "\<dots> = pow2 (54 + (e - 52))" by (simp only: pow2_add)
  also have "\<dots> = pow2 (e + 2)" by (rule arg_cong [where f = pow2]) simp
  also have "\<dots> \<le> pow2 1024" using range by (intro pow2_mono) simp
  finally have fin: "\<not> pow2 1024 \<le> \<bar>y\<bar>" by simp
  show ?thesis
    using x0 q n fin by (simp add: roundToDouble_def Let_def y)
qed

lemma lit_value:
  assumes "pow2 e \<le> \<bar>x\<bar>" and "\<bar>x\<bar> < pow2 (e + 1)"
    and "- 1022 \<le> e" "e \<le> 1000"
    and "roundHalfEven (x / pow2 (e - 52)) = n"
    and "y = of_int n * pow2 (e - 52)"
  shows "lit x = Finite y"
  unfolding lit_def using assms by (rule roundToDouble_value)

lemma fsub_value:
  assumes "pow2 e \<le> \<bar>a - b\<bar>" and "\<bar>a - b\<bar> < pow2 (e + 1)"
    and "- 1022 \<le> e" "e \<le> 1000"
    and "roundHalfEven ((a - b) / pow2 (e - 52)) = n"
    and "y = of_int n * pow2 (e - 52)"
  shows "fsub (Finite a) (Finite b) = Finite y"
  unfolding fsub.simps using assms by (rule roundToDouble_value)

lemma fmul_value:
  assumes "pow2 e \<le> \<bar>a * b\<bar>" and "\<bar>a * b\<bar> < pow2 (e + 1)"
    and "- 1022 \<le> e" "e \<le> 1000"
    and "roundHalfEven (a * b / pow2 (e - 52)) = n"
    and "y = of_int n * pow2 (e - 52)"
  shows "fmul (Finite a) (Finite b) = Finite y"
  unfolding fmul.simps using assms by (rule roundToDouble_value)

lemma fdiv_value:
  assumes "pow2 e \<le> \<bar>a / b\<bar>" and "\<bar>a / b\<bar> < pow2 (e + 1)"
    and "- 1022 \<le> e" "e \<le> 1000"
    and "roundHalfEven (a / b / pow2 (e - 52)) = n"
    and "y = of_int n * pow2 (e - 52)"
  shows "fdiv (Finite a) (Finite b) = Finite y"
proof -
  have "b \<noteq> 0" using assms(1) pow2_pos [of e] by auto
  then have "fdiv (Finite a) (Finite b) = roundToDouble (a / b)" by simp
  also have "\<dots> = Finite y" using assms by (rule roundToDouble_value)
  finally show ?thesis .
qed

lemma lit_0_6:
  "lit 0.6 = Finite (5404319552844595 / 9007199254740992)"
  by (rule lit_value [where e = "- 1" and n = 5404319552844595])
     (simp_all add: pow2_def roundHalfEven_def Let_def)

lemma lit_0_5:
  "lit 0.5 = Finite (1 / 2)"
  by (rule lit_value [where e = "- 1" and n = 4503599627370496])
     (simp_all add: pow2_def roundHalfEven_def Let_def)

lemma lit_0_25:
  "lit 0.25 = Finite (1 / 4)"
  by (rule lit_value [where e = "- 2" and n = 4503599627370496])
     (simp_all add: pow2_def roundHalfEven_def Let_def)

lemma lit_0_10:
  "lit 0.10 = Finite (3602879701896397 / 36028797018963968)"
  by (rule lit_value [where e = "- 4" and n = 7205759403792794])
     (simp_all add: pow2_def roundHalfEven_def Let_def)

lemma lit_1000:
  "lit 1000 = Finite 1000"
  by (rule lit_value [where e = 9 and n = 8796093022208000])
     (simp_all add: pow2_def roundHalfEven_def Let_def)

lemma lit_0_3:
  "lit 0.3 = Finite (5404319552844595 / 18014398509481984)"
  by (rule lit_value [where e = "- 2" and n = 5404319552844595])
     (simp_all add: pow2_def roundHalfEven_def Let_def)

lemma ref_one_minus_price:
  "fsub (Finite 1) (Finite (1 / 2)) = Finite (1 / 2)"
  by (rule fsub_value [where e = "- 1" and n = 4503599627370496])
     (simp_all add: pow2_def roundHalfEven_def Let_def)

lemma ref_odds:
  "fdiv (Finite (1 / 2)) (Finite (1 / 2)) = Finite 1"
  by (rule fdiv_value [where e = 0 and n = 4503599627370496])
     (simp_all add: pow2_def roundHalfEven_def Let_def)

lemma ref_q:
  "fsub (Finite 1) (Finite (5404319552844595 / 9007199254740992)) = Finite (3602879701896397 / 9007199254740992)"
  by (rule fsub_value [where e = "- 2" and n = 7205759403792794])
     (simp_all add: pow2_def roundHalfEven_def Let_def)

lemma ref_bp:
  "fmul (Finite 1) (Finite (5404319552844595 / 9007199254740992)) = Finite (5404319552844595 / 9007199254740992)"
  by (rule fmul_value [where e = "- 1" and n = 5404319552844595])
     (simp_all add: pow2_def roundHalfEven_def Let_def)

lemma ref_numerator:
  "fsub (Finite (5404319552844595 / 9007199254740992)) (Finite (3602879701896397 / 9007199254740992)) = Finite (900719925474099 / 4503599627370496)"
  by (rule fsub_value [where e = "- 3" and n = 7205759403792792])
     (simp_all add: pow2_def roundHalfEven_def Let_def)

lemma ref_fullKelly:
  "fdiv (Finite (900719925474099 / 4503599627370496)) (Finite 1) = Finite (900719925474099 / 4503599627370496)"
  by (rule fdiv_value [where e = "- 3" and n = 7205759403792792])
     (simp_all add: pow2_def roundHalfEven_def Let_def)

lemma ref_adjusted:
  "fmul (Finite (900719925474099 / 4503599627370496)) (Finite (1 / 4)) = Finite (900719925474099 / 18014398509481984)"
  by (rule fmul_value [where e = "- 5" and n = 7205759403792792])
     (simp_all add: pow2_def roundHalfEven_def Let_def)

lemma ref_size:
  "fmul (Finite 1000) (Finite (900719925474099 / 18014398509481984)) = Finite (3518437208883199 / 70368744177664)"
  by (rule fmul_value [where e = 5 and n = 7036874417766398])
     (simp_all add: pow2_def roundHalfEven_def Let_def)

lemma eq_one_minus_price:
  "fsub (Finite 1) (Finite (5404319552844595 / 18014398509481984)) = Finite (3152519739159347 / 4503599627370496)"
  by (rule fsub_value [where e = "- 1" and n = 6305039478318694])
     (simp_all add: pow2_def roundHalfEven_def Let_def)

lemma eq_odds:
  "fdiv (Finite (3152519739159347 / 4503599627370496)) (Finite (5404319552844595 / 18014398509481984)) = Finite (5254199565265579 / 2251799813685248)"
  by (rule fdiv_value [where e = 1 and n = 5254199565265579])
     (simp_all add: pow2_def roundHalfEven_def Let_def)

lemma eq_bp:
  "fmul (Finite (5254199565265579 / 2251799813685248)) (Finite (5404319552844595 / 18014398509481984)) = Finite (6305039478318695 / 9007199254740992)"
  by (rule fmul_value [where e = "- 1" and n = 6305039478318695])
     (simp_all add: pow2_def roundHalfEven_def Let_def)

lemma eq_numerator:
  "fsub (Finite (6305039478318695 / 9007199254740992)) (Finite (3152519739159347 / 4503599627370496)) = Finite (1 / 9007199254740992)"
  by (rule fsub_value [where e = "- 53" and n = 4503599627370496])
     (simp_all add: pow2_def roundHalfEven_def Let_def)

lemma eq_fullKelly:
  "fdiv (Finite (1 / 9007199254740992)) (Finite (5254199565265579 / 2251799813685248)) = Finite (7720456504063707 / 162259276829213363391578010288128)"
  by (rule fdiv_value [where e = "- 55" and n = 7720456504063707])
     (simp_all add: pow2_def roundHalfEven_def Let_def)

lemma eq_adjusted:
  "fmul (Finite (7720456504063707 / 162259276829213363391578010288128)) (Finite (1 / 4)) = Finite (7720456504063707 / 649037107316853453566312041152512)"
  by (rule fmul_value [where e = "- 57" and n = 7720456504063707])
     (simp_all add: pow2_def roundHalfEven_def Let_def)

lemma kellyBetSize64_unfold:
  "kellyBetSize64 p m kf mx =
     (if fle p (Finite 0) \<or> fge p (Finite 1) \<or> fle m (Finite 0) \<or> fge m (Finite 1)
      then Finite 0
      else if fle (fullKelly64 p m) (Finite 0) then Finite 0
      else fmin (fmul (fullKelly64 p m) kf) mx)"
  by (simp add: kellyBetSize64_def fullKelly64_def odds64_def Let_def)

lemma ref_fullKelly64:
  "fullKelly64 (lit 0.6) (lit 0.5) = Finite (900719925474099 / 4503599627370496)"
  by (simp only: fullKelly64_def odds64_def lit_0_6 lit_0_5 ref_one_minus_price ref_odds ref_q
      ref_bp ref_numerator ref_fullKelly)

lemma ref_kellyBetSize64:
  "kellyBetSize64 (lit 0.6) (lit 0.5) (lit 0.25) (lit 0.10)
     = Finite (900719925474099 / 18014398509481984)"
proof -
  have g: "\<not> (fle (lit 0.6) (Finite 0) \<or> fge (lit 0.6) (Finite 1)
             \<or> fle (lit 0.5) (Finite 0) \<or> fge (lit 0.5) (Finite 1))"
    unfolding lit_0_6 lit_0_5 by (simp add: fge_def)
  have f: "\<not> fle (fullKelly64 (lit 0.6) (lit 0.5)) (Finite 0)"
    unfolding ref_fullKelly64 by simp
  have a: "fmul (fullKelly64 (lit 0.6) (lit 0.5)) (lit 0.25)
             = Finite (900719925474099 / 18014398509481984)"
    by (simp only: ref_fullKelly64 lit_0_25 ref_adjusted)
  have m: "fmin (Finite (900719925474099 / 18014398509481984)) (lit 0.10)
             = Finite (900719925474099 / 18014398509481984)"
    unfolding lit_0_10 by simp
  show ?thesis
    by (simp only: kellyBetSize64_unfold g f if_False a m)
qed

lemma ref_calculateBetSize64:
  "calculateBetSize64 (lit 1000) (lit 0.6) (lit 0.5)
     = Finite (3518437208883199 / 70368744177664)"
  by (simp only: calculateBetSize64_def Let_def ref_kellyBetSize64 lit_1000 ref_size)

lemma eq_fullKelly64:
  "fullKelly64 (lit 0.3) (lit 0.3)
     = Finite (7720456504063707 / 162259276829213363391578010288128)"
  by (simp only: fullKelly64_def odds64_def lit_0_3 eq_one_minus_price eq_odds
      eq_bp eq_numerator eq_fullKelly)

lemma eq_kellyBetSize64:
  "kellyBetSize64 (lit 0.3) (lit 0.3) (lit 0.25) (lit 0.10)
     = Finite (7720456504063707 / 649037107316853453566312041152512)"
proof -
  have g: "\<not> (fle (lit 0.3) (Finite 0) \<or> fge (lit 0.3) (Finite 1)
             \<or> fle (lit 0.3) (Finite 0) \<or> fge (lit 0.3) (Finite 1))"
    unfolding lit_0_3 by (simp add: fge_def)
  have f: "\<not> fle (fullKelly64 (lit 0.3) (lit 0.3)) (Finite 0)"
    unfolding eq_fullKelly64 by simp
  have a: "fmul (fullKelly64 (lit 0.3) (lit 0.3)) (lit 0.25)
             = Finite (7720456504063707 / 649037107316853453566312041152512)"
    by (simp only: eq_fullKelly64 lit_0_25 eq_adjusted)
  have m: "fmin (Finite (7720456504063707 / 649037107316853453566312041152512)) (lit 0.10)
             = Finite (7720456504063707 / 649037107316853453566312041152512)"
    unfolding lit_0_10 by simp
  show ?thesis
    by (simp only: kellyBetSize64_unfold g f if_False a m)
qed

text \<open>
  Claim C3, as amended. In the arithmetic the code runs in, binary64 with every
  operation rounded to nearest, \<open>kellyBetSize(probWin, marketPrice)\<close> is 0 when
  \<open>probWin\<close> or \<open>marketPrice\<close> is at or outside the open interval (0,1), and 0 when the
  full Kelly fraction as computed, \<open>f = (b p - (1 - p)) / b\<close> with
  \<open>b = (1 - marketPrice) / marketPrice\<close> and each operation rounded, is not positive; in
  every other case it is \<open>Math.min(f * 0.25, 0.10)\<close>, the product rounded. The
  reference value: \<open>calculateBetSize(1000, 0.6, 0.5)\<close> is
  \<open>3518437208883199 / 2 ^ 46\<close>, printed \<open>49.999999999999986\<close>; it lies \<open>2 ^ -46\<close> below
  the 50 of exact arithmetic.
\<close>

theorem kelly_binary64_zero_cases_and_reference:
  "kellyBetSize64 probWin marketPrice (lit 0.25) (lit 0.10) =
     (if fle probWin (Finite 0) \<or> fge probWin (Finite 1)
         \<or> fle marketPrice (Finite 0) \<or> fge marketPrice (Finite 1) then Finite 0
      else if fle (fullKelly64 probWin marketPrice) (Finite 0) then Finite 0
      else fmin (fmul (fullKelly64 probWin marketPrice) (lit 0.25)) (lit 0.10))
   \<and> calculateBetSize64 (lit 1000) (lit 0.6) (lit 0.5)
       = Finite (3518437208883199 / 70368744177664)
   \<and> calculateBetSize 1000 0.6 0.5 - 3518437208883199 / 70368744177664 = 1 / 2 ^ 46"
proof (intro conjI)
  show "kellyBetSize64 probWin marketPrice (lit 0.25) (lit 0.10) =
     (if fle probWin (Finite 0) \<or> fge probWin (Finite 1)
         \<or> fle marketPrice (Finite 0) \<or> fge marketPrice (Finite 1) then Finite 0
      else if fle (fullKelly64 probWin marketPrice) (Finite 0) then Finite 0
      else fmin (fmul (fullKelly64 probWin marketPrice) (lit 0.25)) (lit 0.10))"
    by (rule kellyBetSize64_unfold)
  show "calculateBetSize64 (lit 1000) (lit 0.6) (lit 0.5)
       = Finite (3518437208883199 / 70368744177664)"
    by (rule ref_calculateBetSize64)
  show "calculateBetSize 1000 0.6 0.5 - 3518437208883199 / 70368744177664 = 1 / 2 ^ 46"
    by (simp add: calculateBetSize_def kellyBetSize_def Let_def)
qed

theorem kelly_binary64_zero_cases_and_reference_witness:
  "kellyBetSize64 (Finite 0) (lit 0.5) (lit 0.25) (lit 0.10) = Finite 0
   \<and> kellyBetSize64 (lit 0.6) (lit 0.5) (lit 0.25) (lit 0.10)
       = Finite (900719925474099 / 18014398509481984)
   \<and> kellyBetSize64 (lit 0.3) (lit 0.3) (lit 0.25) (lit 0.10)
       = Finite (7720456504063707 / 649037107316853453566312041152512)
   \<and> calculateBetSize64 (lit 1000) (lit 0.6) (lit 0.5)
       = Finite (3518437208883199 / 70368744177664)"
proof -
  note zero = kelly_binary64_zero_cases_and_reference [of "Finite 0" "lit 0.5"]
  note ref = kelly_binary64_zero_cases_and_reference [of "lit 0.6" "lit 0.5"]
  note eq = kelly_binary64_zero_cases_and_reference [of "lit 0.3" "lit 0.3"]
  have c1: "kellyBetSize64 (Finite 0) (lit 0.5) (lit 0.25) (lit 0.10) = Finite 0"
    using zero by simp
  have g6: "\<not> (fle (lit 0.6) (Finite 0) \<or> fge (lit 0.6) (Finite 1)
              \<or> fle (lit 0.5) (Finite 0) \<or> fge (lit 0.5) (Finite 1))"
    unfolding lit_0_6 lit_0_5 by (simp add: fge_def)
  have f6: "\<not> fle (fullKelly64 (lit 0.6) (lit 0.5)) (Finite 0)"
    unfolding ref_fullKelly64 by simp
  have m6: "fmin (fmul (fullKelly64 (lit 0.6) (lit 0.5)) (lit 0.25)) (lit 0.10)
              = Finite (900719925474099 / 18014398509481984)"
    unfolding ref_fullKelly64 lit_0_25 ref_adjusted lit_0_10 by simp
  have c2: "kellyBetSize64 (lit 0.6) (lit 0.5) (lit 0.25) (lit 0.10)
              = Finite (900719925474099 / 18014398509481984)"
    using ref by (simp only: g6 f6 m6 if_False)
  have g3: "\<not> (fle (lit 0.3) (Finite 0) \<or> fge (lit 0.3) (Finite 1)
              \<or> fle (lit 0.3) (Finite 0) \<or> fge (lit 0.3) (Finite 1))"
    unfolding lit_0_3 by (simp add: fge_def)
  have f3: "\<not> fle (fullKelly64 (lit 0.3) (lit 0.3)) (Finite 0)"
    unfolding eq_fullKelly64 by simp
  have m3: "fmin (fmul (fullKelly64 (lit 0.3) (lit 0.3)) (lit 0.25)) (lit 0.10)
              = Finite (7720456504063707 / 649037107316853453566312041152512)"
    unfolding eq_fullKelly64 lit_0_25 eq_adjusted lit_0_10 by simp
  have c3: "kellyBetSize64 (lit 0.3) (lit 0.3) (lit 0.25) (lit 0.10)
              = Finite (7720456504063707 / 649037107316853453566312041152512)"
    using eq by (simp only: g3 f3 m3 if_False)
  from ref have c4: "calculateBetSize64 (lit 1000) (lit 0.6) (lit 0.5)
              = Finite (3518437208883199 / 70368744177664)"
    by (simp only:)
  show ?thesis using c1 c2 c3 c4 by (simp only: simp_thms)
qed

text \<open>
  Claim C3 as stated fails in two places. The reference value is not 50. And at
  \<open>probWin = marketPrice = 0.3\<close> the full Kelly fraction of the claim, taken exactly
  at the doubles the code receives, is 0, while the code returns a positive number,
  \<open>1.19e-17\<close>: \<open>b * probWin\<close> is rounded up, past \<open>1 - probWin\<close>.
\<close>

theorem kelly_binary64_counterexample:
  "calculateBetSize64 (lit 1000) (lit 0.6) (lit 0.5) \<noteq> Finite 50
   \<and> lit 0.3 = Finite (5404319552844595 / 18014398509481984)
   \<and> spec_fullKelly (5404319552844595 / 18014398509481984)
         (5404319552844595 / 18014398509481984) \<le> 0
   \<and> kellyBetSize64 (lit 0.3) (lit 0.3) (lit 0.25) (lit 0.10) \<noteq> Finite 0"
proof (intro conjI)
  show "calculateBetSize64 (lit 1000) (lit 0.6) (lit 0.5) \<noteq> Finite 50"
    unfolding ref_calculateBetSize64 by simp
  show "lit 0.3 = Finite (5404319552844595 / 18014398509481984)"
    by (rule lit_0_3)
  show "spec_fullKelly (5404319552844595 / 18014398509481984)
         (5404319552844595 / 18014398509481984) \<le> 0"
    by (simp add: spec_fullKelly_def spec_odds_def)
  show "kellyBetSize64 (lit 0.3) (lit 0.3) (lit 0.25) (lit 0.10) \<noteq> Finite 0"
    unfolding eq_kellyBetSize64 by simp
qed



section \<open>Window alignment and candle aggregation: theorems\<close>

lemma day_hour: "(h div 24) * 24 + h mod 24 = (h::int)"
  by simp

lemma minutes_window: "(m div 60) * 60 + ((m mod 60) div 15) * 15 = (m div 15) * (15::int)"
proof -
  define h where "h = m div 60"
  define r where "r = m mod 60"
  have m: "m = h * 60 + r" by (simp add: h_def r_def)
  have "m div 15 = h * 4 + r div 15"
    unfolding m by simp
  then show ?thesis unfolding h_def[symmetric] r_def[symmetric] by simp
qed

lemma window_start_floor: "get15MinWindowStart t = (t div 900000) * 900000"
proof -
  define m where "m = t div 60000"
  define h where "h = m div 60"
  have h_eq: "t div 3600000 = h"
    unfolding h_def m_def using zdiv_zmult2_eq [of 60 t 60000] by simp
  have d_eq: "t div 86400000 = h div 24"
    unfolding h_eq [symmetric] using zdiv_zmult2_eq [of 24 t 3600000] by simp
  have q_eq: "t div 900000 = m div 15"
    unfolding m_def using zdiv_zmult2_eq [of 15 t 60000] by simp
  have "get15MinWindowStart t
          = (h div 24) * 86400000 + (h mod 24) * 3600000 + ((m mod 60) div 15 * 15) * 60000"
    unfolding get15MinWindowStart_def setUTCMinutes_def getUTCMinutes_def
        getUTCHours_def Let_def h_eq d_eq m_def [symmetric] by simp
  also have "\<dots> = ((h div 24) * 24 + h mod 24) * 3600000 + ((m mod 60) div 15 * 15) * 60000"
    by (simp only: distrib_right mult.assoc; simp)
  also have "\<dots> = (h * 60 + (m mod 60) div 15 * 15) * 60000"
    by (simp only: day_hour distrib_right mult.assoc; simp)
  also have "\<dots> = ((m div 15) * 15) * 60000"
    using minutes_window [of m] by (simp only: h_def)
  also have "\<dots> = (t div 900000) * 900000"
    by (simp add: q_eq)
  finally show ?thesis .
qed

lemma window_of_tick:
  assumes "b mod 900000 = 0" "b \<le> t" "t < b + 900000"
  shows "get15MinWindowStart t = b"
proof -
  from assms(1) obtain q where b: "b = q * 900000" by (auto simp: mod_eq_0_iff_dvd)
  define r where "r = t - b"
  have r: "0 \<le> r" "r < 900000" using assms by (simp_all add: r_def)
  have t: "t = q * 900000 + r" by (simp add: r_def b)
  have "t div 900000 = q" unfolding t using r by simp
  then show ?thesis by (simp add: window_start_floor b)
qed

lemma aggregate_same_window:
  assumes "currentCandle s = Some cur" "timestamp cur = b" "get15MinWindowStart ts = b"
  shows "currentCandle (aggregateTo15Min ts opn hi lo cl vol s)
           = Some (cur\<lparr>high := max (high cur) hi, low := min (low cur) lo,
                        close := cl, volume := volume cur + vol\<rparr>)"
  using assms by (simp add: aggregateTo15Min_def Let_def)

lemma aggregate_new_window:
  assumes "currentCandle s = None \<or> (\<exists>cur. currentCandle s = Some cur \<and> timestamp cur \<noteq> b)"
    and "get15MinWindowStart ts = b"
  shows "currentCandle (aggregateTo15Min ts opn hi lo cl vol s)
           = Some \<lparr>timestamp = b, openPrice = opn, high = hi, low = lo, close = cl, volume = vol\<rparr>"
  using assms by (auto simp add: aggregateTo15Min_def Let_def)

lemma aggregateAll_same_window:
  assumes "\<forall>k \<in> set ks. get15MinWindowStart (k_t k) = b"
    and "currentCandle s = Some cur" "timestamp cur = b"
  shows "\<exists>c. currentCandle (aggregateAll ks s) = Some c \<and> timestamp c = b
           \<and> high c = fold max (map k_h ks) (high cur)
           \<and> low c = fold min (map k_l ks) (low cur)
           \<and> close c = (if ks = [] then close cur else k_c (last ks))"
  using assms
proof (induction ks arbitrary: s cur)
  case Nil
  then show ?case by (simp add: aggregateAll_def)
next
  case (Cons k ks)
  let ?s1 = "aggregateTo15Min (k_t k) (k_o k) (k_h k) (k_l k) (k_c k) (k_v k) s"
  let ?c1 = "cur\<lparr>high := max (high cur) (k_h k), low := min (low cur) (k_l k),
                        close := k_c k, volume := volume cur + k_v k\<rparr>"
  have w: "get15MinWindowStart (k_t k) = b" using Cons.prems(1) by simp
  have s1: "currentCandle ?s1 = Some ?c1"
    using Cons.prems(2,3) w by (rule aggregate_same_window)
  have rest: "\<forall>k \<in> set ks. get15MinWindowStart (k_t k) = b" using Cons.prems(1) by simp
  have t1: "timestamp ?c1 = b" using Cons.prems(3) by simp
  from Cons.IH [OF rest s1 t1]
  obtain c where c: "currentCandle (aggregateAll ks ?s1) = Some c" "timestamp c = b"
    "high c = fold max (map k_h ks) (high ?c1)" "low c = fold min (map k_l ks) (low ?c1)"
    "close c = (if ks = [] then close ?c1 else k_c (last ks))" by blast
  have unfold: "aggregateAll (k # ks) s = aggregateAll ks ?s1" by (simp add: aggregateAll_def)
  show ?case
    unfolding unfold using c by (auto simp add: max.commute min.commute)
qed

lemma aggregateAll_window:
  assumes win: "\<forall>k \<in> set ks. get15MinWindowStart (k_t k) = b" and ne: "ks \<noteq> []"
  shows "\<exists>c. currentCandle (aggregateAll ks s) = Some c \<and> timestamp c = b
           \<and> high c = Max (set (openHigh b s @ map k_h ks))
           \<and> low c = Min (set (openLow b s @ map k_l ks))
           \<and> close c = k_c (last ks)"
proof (cases "\<exists>cur. currentCandle s = Some cur \<and> timestamp cur = b")
  case True
  then obtain cur where cur: "currentCandle s = Some cur" "timestamp cur = b" by blast
  from aggregateAll_same_window [OF win cur]
  obtain c where c: "currentCandle (aggregateAll ks s) = Some c" "timestamp c = b"
    "high c = fold max (map k_h ks) (high cur)" "low c = fold min (map k_l ks) (low cur)"
    "close c = (if ks = [] then close cur else k_c (last ks))" by blast
  have "high c = Max (set (high cur # map k_h ks))"
    using c(3) by (simp only: Max.set_eq_fold)
  then have h: "high c = Max (set (openHigh b s @ map k_h ks))"
    using cur by (simp add: openHigh_def)
  have "low c = Min (set (low cur # map k_l ks))"
    using c(4) by (simp only: Min.set_eq_fold)
  then have l: "low c = Min (set (openLow b s @ map k_l ks))"
    using cur by (simp add: openLow_def)
  show ?thesis using c(1,2,5) h l ne by simp
next
  case False
  then have new: "currentCandle s = None \<or> (\<exists>cur. currentCandle s = Some cur \<and> timestamp cur \<noteq> b)"
    by (cases "currentCandle s") auto
  from ne obtain k rest where ks: "ks = k # rest" by (cases ks) auto
  let ?s1 = "aggregateTo15Min (k_t k) (k_o k) (k_h k) (k_l k) (k_c k) (k_v k) s"
  let ?c1 = "\<lparr>timestamp = b, openPrice = k_o k, high = k_h k, low = k_l k,
              close = k_c k, volume = k_v k\<rparr>"
  have w: "get15MinWindowStart (k_t k) = b" using win ks by simp
  have s1: "currentCandle ?s1 = Some ?c1" using new w by (rule aggregate_new_window)
  have rest: "\<forall>k \<in> set rest. get15MinWindowStart (k_t k) = b" using win ks by simp
  have t1: "timestamp ?c1 = b" by simp
  from aggregateAll_same_window [OF rest s1 t1]
  obtain c where c: "currentCandle (aggregateAll rest ?s1) = Some c" "timestamp c = b"
    "high c = fold max (map k_h rest) (high ?c1)" "low c = fold min (map k_l rest) (low ?c1)"
    "close c = (if rest = [] then close ?c1 else k_c (last rest))" by blast
  have unfold: "aggregateAll ks s = aggregateAll rest ?s1" by (simp add: aggregateAll_def ks)
  have oh: "openHigh b s = []" and ol: "openLow b s = []"
    using new by (auto simp add: openHigh_def openLow_def)
  have "high c = Max (set (k_h k # map k_h rest))"
    using c(3) by (simp only: Max.set_eq_fold Candle15m.simps)
  then have h: "high c = Max (set (openHigh b s @ map k_h ks))"
    by (simp add: oh ks)
  have "low c = Min (set (k_l k # map k_l rest))"
    using c(4) by (simp only: Min.set_eq_fold Candle15m.simps)
  then have l: "low c = Min (set (openLow b s @ map k_l ks))"
    by (simp add: ol ks)
  have cl: "close c = k_c (last ks)" using c(5) by (simp add: ks)
  show ?thesis unfolding unfold using c(1,2) h l cl by simp
qed

text \<open>
  Claim C7. A tick whose timestamp lies in \<open>[boundary, boundary + 15 min)\<close>, for a
  boundary that is a multiple of 15 minutes since the epoch, is routed by
  \<open>aggregateTo15Min\<close> into the candle whose timestamp is that boundary. For ticks of
  one window, applied in any order (\<open>ks'\<close> is a permutation of \<open>ks\<close>), the high and
  the low of the resulting candle are the same (the maximum and the minimum of the
  ticks when no candle was open before), and the close is the close of the tick applied
  last.
\<close>

theorem aggregation_window_and_order:
  assumes boundary: "boundary mod 900000 = 0"
    and ne: "ks \<noteq> []"
    and win: "\<forall>k \<in> set ks. boundary \<le> k_t k \<and> k_t k < boundary + 900000"
    and perm: "mset ks' = mset ks"
  shows "(\<forall>k \<in> set ks. get15MinWindowStart (k_t k) = boundary)
       \<and> (\<exists>c c'. currentCandle (aggregateAll ks s) = Some c
               \<and> currentCandle (aggregateAll ks' s) = Some c'
               \<and> timestamp c = boundary \<and> timestamp c' = boundary
               \<and> high c = high c' \<and> low c = low c'
               \<and> (currentCandle s = None \<longrightarrow>
                    high c = Max (k_h ` set ks) \<and> low c = Min (k_l ` set ks))
               \<and> close c = k_c (last ks) \<and> close c' = k_c (last ks'))"
proof -
  have w: "\<forall>k \<in> set ks. get15MinWindowStart (k_t k) = boundary"
    using win boundary by (auto intro: window_of_tick)
  have sets: "set ks' = set ks" using perm by (rule mset_eq_setD)
  have ne': "ks' \<noteq> []" using ne perm by auto
  have w': "\<forall>k \<in> set ks'. get15MinWindowStart (k_t k) = boundary" using w sets by simp
  from aggregateAll_window [OF w ne, of s]
  obtain c where c: "currentCandle (aggregateAll ks s) = Some c" "timestamp c = boundary"
    "high c = Max (set (openHigh boundary s @ map k_h ks))"
    "low c = Min (set (openLow boundary s @ map k_l ks))"
    "close c = k_c (last ks)" by blast
  from aggregateAll_window [OF w' ne', of s]
  obtain c' where c': "currentCandle (aggregateAll ks' s) = Some c'" "timestamp c' = boundary"
    "high c' = Max (set (openHigh boundary s @ map k_h ks'))"
    "low c' = Min (set (openLow boundary s @ map k_l ks'))"
    "close c' = k_c (last ks')" by blast
  have hh: "high c = high c'" using c(3) c'(3) sets by simp
  have ll: "low c = low c'" using c(4) c'(4) sets by simp
  have fresh: "currentCandle s = None \<longrightarrow>
                    high c = Max (k_h ` set ks) \<and> low c = Min (k_l ` set ks)"
    using c(3,4) by (simp add: openHigh_def openLow_def)
  have "\<exists>c c'. currentCandle (aggregateAll ks s) = Some c
               \<and> currentCandle (aggregateAll ks' s) = Some c'
               \<and> timestamp c = boundary \<and> timestamp c' = boundary
               \<and> high c = high c' \<and> low c = low c'
               \<and> (currentCandle s = None \<longrightarrow>
                    high c = Max (k_h ` set ks) \<and> low c = Min (k_l ` set ks))
               \<and> close c = k_c (last ks) \<and> close c' = k_c (last ks')"
    using c(1,2,5) c'(1,2,5) hh ll fresh
    by (intro exI [of _ c] exI [of _ c']) simp
  with w show ?thesis by simp
qed

theorem aggregation_window_and_order_witness:
  "\<exists>c c'. currentCandle (aggregateAll [tickA, tickB] initialFeed) = Some c
         \<and> currentCandle (aggregateAll [tickB, tickA] initialFeed) = Some c'
         \<and> timestamp c = 900000 \<and> timestamp c' = 900000
         \<and> high c = 105 \<and> high c' = 105 \<and> low c = 95 \<and> low c' = 95
         \<and> close c = 97 \<and> close c' = 101"
proof -
  have b: "(900000::int) mod 900000 = 0" by simp
  have ne: "[tickA, tickB] \<noteq> []" by simp
  have win: "\<forall>k \<in> set [tickA, tickB]. 900000 \<le> k_t k \<and> k_t k < 900000 + 900000"
    by (simp add: tickA_def tickB_def)
  have perm: "mset [tickB, tickA] = mset [tickA, tickB]" by simp
  have init: "currentCandle initialFeed = None" by (simp add: initialFeed_def)
  have mx: "Max (k_h ` set [tickA, tickB]) = 105" by (simp add: tickA_def tickB_def)
  have mn: "Min (k_l ` set [tickA, tickB]) = 95" by (simp add: tickA_def tickB_def)
  have la: "k_c (last [tickA, tickB]) = 97" "k_c (last [tickB, tickA]) = 101"
    by (simp_all add: tickA_def tickB_def)
  from aggregation_window_and_order [OF b ne win perm, of initialFeed]
  show ?thesis using init mx mn la by (metis)
qed

section \<open>The secondary source: theorems\<close>

lemma fetchChainlinkPrice_heartbeat:
  "latestPrice (snd (fetchChainlinkPrice rpc s)) = latestPrice s
   \<and> lastUpdateTime (snd (fetchChainlinkPrice rpc s)) = lastUpdateTime s
   \<and> candles15m (snd (fetchChainlinkPrice rpc s)) = candles15m s
   \<and> currentCandle (snd (fetchChainlinkPrice rpc s)) = currentCandle s"
  by (simp add: fetchChainlinkPrice_def Let_def split: option.split prod.split)

text \<open>
  Claim C6 says that a successful poll of the secondary source (the Chainlink fetch)
  feeds the heartbeat read by \<open>isPriceFeedHealthy\<close>, so that a process that receives
  only secondary polls reports healthy, and that a poll never overwrites the candles.
  The code does the second and not the first: \<open>fetchChainlinkPrice\<close> returns the price
  and the timer drops it; \<open>latestPrice\<close> and \<open>lastUpdateTime\<close> are written by the stream
  handler and the history fetch only. Evaluated on a process with the contract handle
  and no other source: the poll obtains 50000 and the feed stays unhealthy at the very
  instant of the poll.
\<close>

theorem chainlink_poll_does_not_feed_heartbeat:
  "fetchChainlinkPrice (Some (5000000000000, 8)) feedChainlinkOnly
     = (Some 50000, feedChainlinkOnly)
   \<and> latestPrice (chainlinkPoll (Some (5000000000000, 8)) feedChainlinkOnly) = 0
   \<and> lastUpdateTime (chainlinkPoll (Some (5000000000000, 8)) feedChainlinkOnly) = 0
   \<and> \<not> isPriceFeedHealthy 1000 (chainlinkPoll (Some (5000000000000, 8)) feedChainlinkOnly)
   \<and> isPriceFeedHealthy now (chainlinkPoll rpc s) = isPriceFeedHealthy now s
   \<and> candles15m (chainlinkPoll rpc s) = candles15m s
   \<and> currentCandle (chainlinkPoll rpc s) = currentCandle s"
proof -
  have run: "fetchChainlinkPrice (Some (5000000000000, 8)) feedChainlinkOnly
     = (Some 50000, feedChainlinkOnly)"
    by (simp add: fetchChainlinkPrice_def feedChainlinkOnly_def initialFeed_def
        MAX_CHAINLINK_FAILURES_def)
  have init: "latestPrice feedChainlinkOnly = 0" "lastUpdateTime feedChainlinkOnly = 0"
    by (simp_all add: feedChainlinkOnly_def initialFeed_def)
  show ?thesis
    using run init fetchChainlinkPrice_heartbeat [of rpc s]
    by (simp add: chainlinkPoll_def isPriceFeedHealthy_def)
qed

theorem chainlink_poll_does_not_feed_heartbeat_witness:
  "\<not> isPriceFeedHealthy 1000 (chainlinkPoll (Some (5000000000000, 8)) feedChainlinkOnly)
   \<and> \<not> isPriceFeedHealthy 1000 (chainlinkPoll None feedChainlinkOnly)
   \<and> candles15m (chainlinkPoll (Some (5000000000000, 8)) feedChainlinkOnly) = []"
  using chainlink_poll_does_not_feed_heartbeat [of 1000 None feedChainlinkOnly]
    chainlink_poll_does_not_feed_heartbeat [of 1000 "Some (5000000000000, 8)" feedChainlinkOnly]
  by (simp add: isPriceFeedHealthy_def feedChainlinkOnly_def initialFeed_def)

section \<open>The feature builder: theorems\<close>

lemma length_computeFeatures: "length (computeFeatures candles lastC) = 32"
  by (simp add: computeFeatures_def Let_def)

lemma padFeatures_replicate:
  "padFeatures n fs = fs @ replicate (n - length fs) (Some 0)"
proof (induction n fs rule: padFeatures.induct)
  case (1 n fs)
  show ?case
  proof (cases "length fs < n")
    case True
    then have "n - length fs = Suc (n - Suc (length fs))" by simp
    with True "1.IH" show ?thesis
      by (subst padFeatures.simps) (simp add: replicate_app_Cons_same)
  next
    case False
    then show ?thesis by (subst padFeatures.simps) simp
  qed
qed

lemma length_take_padFeatures: "length (take n (padFeatures n fs)) = n"
  by (simp add: padFeatures_replicate)

lemma prepareFeatures_short:
  "length candles < 20 \<Longrightarrow>
     prepareFeatures metadata candles = Inl (InsufficientHistory (length candles))"
  by (simp add: prepareFeatures_def)

lemma prepareFeatures_long:
  assumes "20 \<le> length candles"
  shows "prepareFeatures metadata candles =
     (let features = computeFeatures candles (last candles);
          expectedFeatures = (case metadata of Some md \<Rightarrow> n_features md | None \<Rightarrow> 32)
      in Inr ((if expectedFeatures \<noteq> 32 then [FeatureCountMismatch 32 expectedFeatures] else [])
                @ [FeaturesPrepared (max 32 expectedFeatures)],
              take expectedFeatures (padFeatures expectedFeatures features)))"
proof -
  from assms have ne: "candles \<noteq> []" by auto
  show ?thesis
    using assms ne
    by (cases metadata)
       (auto simp add: prepareFeatures_def Let_def length_computeFeatures padFeatures_replicate)
qed

text \<open>
  Claim C8. \<open>prepareFeatures\<close> throws exactly when the history has fewer than 20
  candles, and what it throws then is the insufficient-history error. With a manifest
  loaded and at least 20 candles it returns a vector whose length is the manifest's
  \<open>n_features\<close>, and the vector is the 32 computed features cut to the first
  \<open>n_features\<close> when the manifest asks for fewer and followed by zeros when it asks
  for more; a difference between the 32 computed features and the manifest is logged
  as a warning and the vector is returned all the same.
\<close>

theorem prepareFeatures_precondition_and_shape:
  "(isl (prepareFeatures metadata candles) \<longleftrightarrow> length candles < 20)
   \<and> (length candles < 20 \<longrightarrow>
        prepareFeatures metadata candles = Inl (InsufficientHistory (length candles)))
   \<and> (20 \<le> length candles \<longrightarrow>
        (\<exists>logged fs. prepareFeatures (Some md) candles = Inr (logged, fs)
            \<and> length fs = n_features md
            \<and> fs = take (n_features md)
                     (computeFeatures candles (last candles)
                        @ replicate (n_features md - 32) (Some 0))
            \<and> (n_features md \<le> 32 \<longrightarrow>
                 fs = take (n_features md) (computeFeatures candles (last candles)))
            \<and> (32 \<le> n_features md \<longrightarrow>
                 fs = computeFeatures candles (last candles)
                        @ replicate (n_features md - 32) (Some 0))
            \<and> (FeatureCountMismatch 32 (n_features md) \<in> set logged
                 \<longleftrightarrow> n_features md \<noteq> 32)))"
proof (intro conjI impI)
  show "isl (prepareFeatures metadata candles) \<longleftrightarrow> length candles < 20"
  proof (cases "length candles < 20")
    case True
    then show ?thesis by (simp add: prepareFeatures_short)
  next
    case False
    then have "20 \<le> length candles" by simp
    from prepareFeatures_long [OF this, of metadata] False
    show ?thesis by (simp add: Let_def)
  qed
next
  assume "length candles < 20"
  then show "prepareFeatures metadata candles = Inl (InsufficientHistory (length candles))"
    by (rule prepareFeatures_short)
next
  assume long: "20 \<le> length candles"
  let ?F = "computeFeatures candles (last candles)"
  let ?n = "n_features md"
  let ?fs = "take ?n (?F @ replicate (?n - 32) (Some 0))"
  let ?logged = "(if ?n \<noteq> 32 then [FeatureCountMismatch 32 ?n] else [])
                   @ [FeaturesPrepared (max 32 ?n)]"
  have run: "prepareFeatures (Some md) candles = Inr (?logged, ?fs)"
    using prepareFeatures_long [OF long, of "Some md"]
    by (simp add: Let_def padFeatures_replicate length_computeFeatures)
  have len: "length ?fs = ?n" by (simp add: length_computeFeatures)
  have cut: "?n \<le> 32 \<longrightarrow> ?fs = take ?n ?F" by (simp add: length_computeFeatures)
  have pad: "32 \<le> ?n \<longrightarrow> ?fs = ?F @ replicate (?n - 32) (Some 0)"
    by (simp add: length_computeFeatures)
  have warn: "FeatureCountMismatch 32 ?n \<in> set ?logged \<longleftrightarrow> ?n \<noteq> 32" by simp
  show "\<exists>logged fs. prepareFeatures (Some md) candles = Inr (logged, fs)
            \<and> length fs = n_features md
            \<and> fs = take (n_features md)
                     (computeFeatures candles (last candles)
                        @ replicate (n_features md - 32) (Some 0))
            \<and> (n_features md \<le> 32 \<longrightarrow>
                 fs = take (n_features md) (computeFeatures candles (last candles)))
            \<and> (32 \<le> n_features md \<longrightarrow>
                 fs = computeFeatures candles (last candles)
                        @ replicate (n_features md - 32) (Some 0))
            \<and> (FeatureCountMismatch 32 (n_features md) \<in> set logged
                 \<longleftrightarrow> n_features md \<noteq> 32)"
    using run len cut pad warn by (intro exI [of _ ?logged] exI [of _ ?fs]) blast
qed

theorem prepareFeatures_precondition_and_shape_witness:
  "prepareFeatures None (replicate 19 flatCandle) = Inl (InsufficientHistory 19)
   \<and> (\<exists>logged. prepareFeatures (Some (manifest 35)) (replicate 20 flatCandle)
          = Inr (logged,
                 computeFeatures (replicate 20 flatCandle) flatCandle
                   @ [Some 0, Some 0, Some 0])
         \<and> FeatureCountMismatch 32 35 \<in> set logged)
   \<and> (\<exists>logged. prepareFeatures (Some (manifest 30)) (replicate 20 flatCandle)
          = Inr (logged, take 30 (computeFeatures (replicate 20 flatCandle) flatCandle))
         \<and> FeatureCountMismatch 32 30 \<in> set logged)"
proof -
  have l: "last (replicate 20 flatCandle) = flatCandle" by simp
  have three: "replicate (35 - 32) (Some (0::real)) = [Some 0, Some 0, Some 0]"
    by (simp add: numeral_3_eq_3)
  from prepareFeatures_precondition_and_shape
      [of None "replicate 19 flatCandle" "manifest 35"]
  have short: "prepareFeatures None (replicate 19 flatCandle) = Inl (InsufficientHistory 19)"
    by simp
  from prepareFeatures_precondition_and_shape
      [of None "replicate 20 flatCandle" "manifest 35"]
  obtain logged fs where a:
    "prepareFeatures (Some (manifest 35)) (replicate 20 flatCandle) = Inr (logged, fs)"
    "fs = computeFeatures (replicate 20 flatCandle) (last (replicate 20 flatCandle))
            @ replicate (35 - 32) (Some 0)"
    "FeatureCountMismatch 32 35 \<in> set logged"
    by (auto simp add: manifest_def)
  from prepareFeatures_precondition_and_shape
      [of None "replicate 20 flatCandle" "manifest 30"]
  obtain logged' fs' where b:
    "prepareFeatures (Some (manifest 30)) (replicate 20 flatCandle) = Inr (logged', fs')"
    "fs' = take 30 (computeFeatures (replicate 20 flatCandle) (last (replicate 20 flatCandle)))"
    "FeatureCountMismatch 32 30 \<in> set logged'"
    by (auto simp add: manifest_def)
  show ?thesis using short a b by (simp only: l three) blast
qed

section \<open>The epsilon policy of the feature builder: theorems\<close>

lemma jsdiv_None_iff: "jsdiv a b = None \<longleftrightarrow> b = 0"
  by (simp add: jsdiv_def)

lemma jsdiv_Some: "b \<noteq> 0 \<Longrightarrow> jsdiv a b = Some (a / b)"
  by (simp add: jsdiv_def)

lemma eps_pos: "0 < eps"
  by (simp add: eps_def)

lemma sliceLast_nonempty: "values \<noteq> [] \<Longrightarrow> 0 < period \<Longrightarrow> sliceLast period values \<noteq> []"
  by (cases "values") (auto simp add: sliceLast_def)

lemma set_sliceLast: "set (sliceLast period values) \<subseteq> set values"
  by (auto simp add: sliceLast_def dest: in_set_dropD)

lemma sum_list_pos:
  assumes "xs \<noteq> []" "\<forall>x \<in> set xs. 0 < x"
  shows "0 < sum_list (xs :: real list)"
  using assms
proof (induction xs)
  case Nil
  then show ?case by simp
next
  case (Cons x xs)
  show ?case
  proof (cases "xs = []")
    case True
    with Cons.prems show ?thesis by simp
  next
    case False
    with Cons have "0 < sum_list xs" by simp
    moreover have "0 < x" using Cons.prems by simp
    ultimately show ?thesis by simp
  qed
qed

lemma sma_defined:
  assumes "values \<noteq> []" "0 < period"
  shows "\<exists>m. sma values period = Some m
           \<and> ((\<forall>v \<in> set values. 0 \<le> v) \<longrightarrow> 0 \<le> m)
           \<and> ((\<forall>v \<in> set values. 0 < v) \<longrightarrow> 0 < m)"
proof -
  let ?sl = "sliceLast period values"
  have ne: "?sl \<noteq> []" using assms by (rule sliceLast_nonempty)
  then have len: "0 < real (length ?sl)" by simp
  have eq: "sma values period = Some (sum_list ?sl / real (length ?sl))"
    using len by (simp add: sma_def Let_def jsdiv_def)
  have nonneg: "(\<forall>v \<in> set values. 0 \<le> v) \<longrightarrow> 0 \<le> sum_list ?sl / real (length ?sl)"
    using set_sliceLast [of period "values"] by (auto intro!: divide_nonneg_nonneg sum_list_nonneg)
  have pos: "(\<forall>v \<in> set values. 0 < v) \<longrightarrow> 0 < sum_list ?sl / real (length ?sl)"
  proof
    assume "\<forall>v \<in> set values. 0 < v"
    then have "\<forall>v \<in> set ?sl. 0 < v" using set_sliceLast [of period "values"] by auto
    with ne have "0 < sum_list ?sl" by (rule sum_list_pos)
    with len show "0 < sum_list ?sl / real (length ?sl)" by simp
  qed
  show ?thesis using eq nonneg pos by blast
qed

lemma stdDev_nonneg: "0 \<le> stdDev values"
  by (auto simp add: stdDev_def Let_def intro!: divide_nonneg_nonneg sum_list_nonneg)

lemma rsi_fold_nonneg:
  assumes "0 \<le> fst acc" "0 \<le> snd acc"
  shows "0 \<le> fst (fold (rsiStep closes) is acc) \<and> 0 \<le> snd (fold (rsiStep closes) is acc)"
  using assms
proof (induction "is" arbitrary: acc)
  case Nil
  then show ?case by simp
next
  case (Cons i "is")
  have "0 \<le> fst (rsiStep closes i acc) \<and> 0 \<le> snd (rsiStep closes i acc)"
    using Cons.prems by (simp add: rsiStep_def Let_def)
  then show ?case using Cons.IH by simp
qed

lemma rsi_defined: "rsi closes period \<noteq> None"
proof -
  let ?acc = "fold (rsiStep closes) [length closes - period ..< length closes] (0, 0)"
  have nn: "0 \<le> fst ?acc \<and> 0 \<le> snd ?acc" by (rule rsi_fold_nonneg) simp_all
  then have "0 \<le> fst ?acc / snd ?acc" by simp
  then have "1 + fst ?acc / snd ?acc \<noteq> 0" by linarith
  then show ?thesis by (simp add: rsi_def Let_def jsdiv_def)
qed

lemma ema_fold_pos:
  assumes "0 < k" "k < 1" "0 < r" "\<forall>v \<in> set vs. 0 < (v::real)"
  shows "0 < fold (\<lambda>v result. v * k + result * (1 - k)) vs r"
  using assms
proof (induction vs arbitrary: r)
  case Nil
  then show ?case by simp
next
  case (Cons v vs)
  have "0 < v * k" using Cons.prems by simp
  moreover have "0 < r * (1 - k)" using Cons.prems by simp
  ultimately have "0 < v * k + r * (1 - k)" by simp
  with Cons show ?case by simp
qed

lemma ema_pos:
  assumes "values \<noteq> []" "\<forall>v \<in> set values. 0 < v" "1 < period"
  shows "0 < ema values period"
proof -
  from assms(1) obtain v0 rest where v: "values = v0 # rest" by (cases "values") auto
  have k: "0 < 2 / (period + 1)" "2 / (period + 1) < 1" using assms(3) by simp_all
  show ?thesis
    using ema_fold_pos [OF k, of v0 rest] assms(2) by (simp add: ema_def v Let_def)
qed

lemma atr_defined:
  assumes "2 \<le> length candles" "0 < period"
  shows "atr candles period \<noteq> None"
proof -
  let ?trs = "map (\<lambda>i. trueRange (candles ! (i - 1)) (candles ! i)) [1 ..< length candles]"
  have "?trs \<noteq> []" using assms(1) by auto
  from sma_defined [OF this assms(2)] show ?thesis by (auto simp add: atr_def Let_def)
qed

lemma indexOr_cases: "indexOr xs i d = d \<or> indexOr xs i d \<in> set xs"
proof (cases "0 \<le> i \<and> i < int (length xs)")
  case True
  then have "nat i < length xs" by linarith
  then have "xs ! nat i \<in> set xs" by (rule nth_mem)
  with True show ?thesis by (simp add: indexOr_def)
next
  case False
  then show ?thesis by (auto simp add: indexOr_def)
qed

lemma indexOr_nonneg:
  assumes "\<forall>x \<in> set xs. 0 \<le> (x::real)" "0 \<le> d"
  shows "0 \<le> indexOr xs i d"
  using indexOr_cases [of xs i d] assms by auto

lemma indexOr_pos:
  assumes "\<forall>x \<in> set xs. 0 < (x::real)" "0 < d"
  shows "0 < indexOr xs i d"
  using indexOr_cases [of xs i d] assms by auto

lemma guarded_features_defined:
  assumes len: "20 \<le> length candles"
    and wf: "\<forall>c \<in> set candles. low c \<le> high c \<and> 0 \<le> volume c \<and> 0 \<le> close c"
  shows "\<forall>i \<in> set epsilonGuarded. computeFeatures candles (last candles) ! i \<noteq> None"
proof -
  let ?l = "last candles"
  from len have ne: "candles \<noteq> []" by auto
  then have l: "?l \<in> set candles" by simp
  have "low ?l \<le> high ?l" using wf l by simp
  then have body: "high ?l - low ?l + eps \<noteq> 0" using eps_pos by linarith
  have cne: "map close candles \<noteq> []" and vne: "map volume candles \<noteq> []" using ne by simp_all
  obtain m where m: "sma (map close candles) 20 = Some m"
    using sma_defined [OF cne, of 20] by auto
  obtain m8 where m8: "sma (map close candles) 8 = Some m8"
    using sma_defined [OF cne, of 8] by auto
  obtain v8 where v8: "sma (map volume candles) 8 = Some v8" "0 \<le> v8"
    using sma_defined [OF vne, of 8] wf by auto
  have bb: "4 * stdDev (sliceLast 20 (map close candles)) + eps \<noteq> 0"
    using stdDev_nonneg [of "sliceLast 20 (map close candles)"] eps_pos by linarith
  have z: "stdDev (sliceLast 8 (map close candles)) + eps \<noteq> 0"
    using stdDev_nonneg [of "sliceLast 8 (map close candles)"] eps_pos by linarith
  have vr: "v8 + eps \<noteq> 0" using v8(2) eps_pos by linarith
  have "0 \<le> indexOr (map volume candles) (int (length candles) - 2) (volume ?l)"
    using wf l by (intro indexOr_nonneg) auto
  then have pv: "indexOr (map volume candles) (int (length candles) - 2) (volume ?l) + eps \<noteq> 0"
    using eps_pos by linarith
  have "0 \<le> indexOr (map close candles) (int (length candles) - 5) (close ?l)"
    using wf l by (intro indexOr_nonneg) auto
  then have c4: "indexOr (map close candles) (int (length candles) - 5) (close ?l) + eps \<noteq> 0"
    using eps_pos by linarith
  show ?thesis
    using body bb z vr pv c4
    by (simp add: epsilonGuarded_def computeFeatures_def Let_def m m8 v8(1) jsdiv_def)
qed

lemma all_features_defined:
  assumes len: "20 \<le> length candles"
    and wf: "\<forall>c \<in> set candles. low c \<le> high c \<and> 0 \<le> volume c \<and> 0 \<le> close c"
    and pos: "\<forall>c \<in> set candles. 0 < close c"
  shows "None \<notin> set (computeFeatures candles (last candles))"
proof -
  let ?l = "last candles"
  let ?closes = "map close candles"
  let ?volumes = "map volume candles"
  from len have ne: "candles \<noteq> []" by auto
  then have l: "?l \<in> set candles" by simp
  have cpos: "\<forall>v \<in> set ?closes. 0 < v" using pos by simp
  have lc: "0 < close ?l" using pos l by simp
  then have lc0: "close ?l \<noteq> 0" by simp
  have "low ?l \<le> high ?l" using wf l by simp
  then have body: "high ?l - low ?l + eps \<noteq> 0" using eps_pos by linarith
  have cne: "?closes \<noteq> []" and vne: "?volumes \<noteq> []" using ne by simp_all
  obtain m where m: "sma ?closes 20 = Some m" "0 < m"
    using sma_defined [OF cne, of 20] cpos by auto
  obtain m8 where m8: "sma ?closes 8 = Some m8"
    using sma_defined [OF cne, of 8] by auto
  obtain v8 where v8: "sma ?volumes 8 = Some v8" "0 \<le> v8"
    using sma_defined [OF vne, of 8] wf by auto
  obtain r7 where r7: "rsi ?closes 7 = Some r7" using rsi_defined [of ?closes 7] by auto
  obtain r14 where r14: "rsi ?closes 14 = Some r14" using rsi_defined [of ?closes 14] by auto
  obtain a where a: "atr candles 7 = Some a" using atr_defined [of candles 7] len by auto
  have m0: "m \<noteq> 0" using m(2) by simp
  have bb: "4 * stdDev (sliceLast 20 ?closes) + eps \<noteq> 0"
    using stdDev_nonneg [of "sliceLast 20 ?closes"] eps_pos by linarith
  have z: "stdDev (sliceLast 8 ?closes) + eps \<noteq> 0"
    using stdDev_nonneg [of "sliceLast 8 ?closes"] eps_pos by linarith
  have vr: "v8 + eps \<noteq> 0" using v8(2) eps_pos by linarith
  have pv: "indexOr ?volumes i (volume ?l) + eps \<noteq> 0" for i
  proof -
    have "0 \<le> indexOr ?volumes i (volume ?l)" using wf l by (intro indexOr_nonneg) auto
    then show ?thesis using eps_pos by linarith
  qed
  have pc: "0 < indexOr ?closes i (close ?l)" for i
    using cpos lc by (rule indexOr_pos)
  have pc0: "indexOr ?closes i (close ?l) \<noteq> 0" for i
    using pc [of i] by simp
  have pce: "indexOr ?closes i (close ?l) + eps \<noteq> 0" for i
    using pc [of i] eps_pos by linarith
  have e4: "ema ?closes 4 \<noteq> 0" using ema_pos [OF cne cpos, of 4] by simp
  have e8: "ema ?closes 8 \<noteq> 0" using ema_pos [OF cne cpos, of 8] by simp
  show ?thesis
    using body bb z vr m0 lc0 e4 e8
    by (simp add: computeFeatures_def Let_def m(1) m8 v8(1) r7 r14 a jsdiv_def pv pc0 pce)
qed

lemma sma_meanLast:
  assumes "values \<noteq> []" "0 < period"
  shows "sma values period = Some (meanLast period values)"
proof -
  have "sliceLast period values \<noteq> []" using assms by (rule sliceLast_nonempty)
  then show ?thesis by (simp add: sma_def meanLast_def Let_def jsdiv_def)
qed

lemma ratio_features_denominators:
  assumes len: "20 \<le> length candles"
  shows "\<forall>i \<in> set (epsilonGuarded @ rawDenominators).
           (computeFeatures candles (last candles) ! i = None
              \<longleftrightarrow> ratioDenominator candles i = 0)"
proof -
  let ?closes = "map close candles"
  let ?volumes = "map volume candles"
  from len have ne: "candles \<noteq> []" by auto
  have cne: "?closes \<noteq> []" and vne: "?volumes \<noteq> []" using ne by simp_all
  have m20: "sma ?closes 20 = Some (meanLast 20 ?closes)" using cne by (rule sma_meanLast) simp
  have m8: "sma ?closes 8 = Some (meanLast 8 ?closes)" using cne by (rule sma_meanLast) simp
  have v8: "sma ?volumes 8 = Some (meanLast 8 ?volumes)" using vne by (rule sma_meanLast) simp
  obtain a where a: "atr candles 7 = Some a" using atr_defined [of candles 7] len by auto
  show ?thesis
    by (simp add: epsilonGuarded_def rawDenominators_def computeFeatures_def
        ratioDenominator_def Let_def m20 m8 v8 a jsdiv_def)
qed

lemma fold_zero:
  assumes "\<forall>v \<in> set vs. v = (0::real)" "g 0 0 = (0::real)"
  shows "fold g vs 0 = 0"
  using assms by (induction vs) simp_all

lemma ema_zero:
  assumes "\<forall>v \<in> set values. v = 0"
  shows "ema values period = 0"
proof (cases "values")
  case Nil
  then show ?thesis by (simp add: ema_def)
next
  case (Cons v0 rest)
  with assms have z: "v0 = 0" "\<forall>v \<in> set rest. v = 0" by simp_all
  have "fold (\<lambda>v result. v * (2 / (period + 1)) + result * (1 - 2 / (period + 1))) rest 0 = 0"
    using z(2) by (rule fold_zero) simp
  with Cons z(1) show ?thesis by (simp only: ema_def Let_def list.case)
qed

text \<open>
  Claim C5, as amended. The \<open>1e-10\<close> is added to the denominators of the candle-shape
  ratios, the Bollinger position, the volume ratio, the volume change, the rate of
  change and the z-score, and to no other denominator: for every history of at least
  20 candles, each of these features divides by zero exactly when its denominator with
  the epsilon is 0, and each of the returns, the Bollinger width, the volatility ratios
  and the close-to-EMA ratios divides by zero exactly when the raw previous close, mean,
  last close or EMA is 0. When the candles have \<open>low \<le> high\<close> and volume and close not
  negative, the features with the epsilon never divide by zero (flat prices and a zero
  previous close included); when in addition every close is positive, no feature at
  all divides by zero.
\<close>

theorem epsilon_guarded_features_defined:
  assumes len: "20 \<le> length candles"
  shows "\<exists>logged fs. prepareFeatures metadata candles = Inr (logged, fs)
           \<and> length fs = (case metadata of Some md \<Rightarrow> n_features md | None \<Rightarrow> 32)
           \<and> (\<forall>i \<in> set (epsilonGuarded @ rawDenominators). i < length fs \<longrightarrow>
                 (fs ! i = None \<longleftrightarrow> ratioDenominator candles i = 0))
           \<and> ((\<forall>c \<in> set candles. low c \<le> high c \<and> 0 \<le> volume c \<and> 0 \<le> close c) \<longrightarrow>
                 (\<forall>i \<in> set epsilonGuarded. i < length fs \<longrightarrow> fs ! i \<noteq> None)
                 \<and> ((\<forall>c \<in> set candles. 0 < close c) \<longrightarrow> None \<notin> set fs))"
proof -
  let ?F = "computeFeatures candles (last candles)"
  define n where "n = (case metadata of Some md \<Rightarrow> n_features md | None \<Rightarrow> 32)"
  define fs where "fs = take n (padFeatures n ?F)"
  from prepareFeatures_long [OF len, of metadata]
  obtain logged where run: "prepareFeatures metadata candles = Inr (logged, fs)"
    by (simp add: Let_def n_def fs_def)
  have fs: "fs = take n (?F @ replicate (n - 32) (Some 0))"
    by (simp add: fs_def padFeatures_replicate length_computeFeatures)
  have lfs: "length fs = n" by (simp add: fs length_computeFeatures)
  have nth: "fs ! i = ?F ! i" if "i < length fs" "i < 32" for i
  proof -
    from that lfs have "i < n" by simp
    with that(2) show ?thesis by (simp add: fs nth_append length_computeFeatures)
  qed
  have denominators: "\<forall>i \<in> set (epsilonGuarded @ rawDenominators). i < length fs \<longrightarrow>
                 (fs ! i = None \<longleftrightarrow> ratioDenominator candles i = 0)"
  proof (intro ballI impI)
    fix i assume i: "i \<in> set (epsilonGuarded @ rawDenominators)" and l: "i < length fs"
    have "i < 32" using i by (auto simp add: epsilonGuarded_def rawDenominators_def)
    with l have "fs ! i = ?F ! i" by (rule nth)
    with ratio_features_denominators [OF len] i
    show "fs ! i = None \<longleftrightarrow> ratioDenominator candles i = 0" by simp
  qed
  have safe: "(\<forall>i \<in> set epsilonGuarded. i < length fs \<longrightarrow> fs ! i \<noteq> None)
                 \<and> ((\<forall>c \<in> set candles. 0 < close c) \<longrightarrow> None \<notin> set fs)"
    if wf: "\<forall>c \<in> set candles. low c \<le> high c \<and> 0 \<le> volume c \<and> 0 \<le> close c"
  proof
    show "\<forall>i \<in> set epsilonGuarded. i < length fs \<longrightarrow> fs ! i \<noteq> None"
    proof (intro ballI impI)
      fix i assume i: "i \<in> set epsilonGuarded" and l: "i < length fs"
      have "i < 32" using i by (auto simp add: epsilonGuarded_def)
      with l have "fs ! i = ?F ! i" by (rule nth)
      with guarded_features_defined [OF len wf] i show "fs ! i \<noteq> None" by simp
    qed
    show "(\<forall>c \<in> set candles. 0 < close c) \<longrightarrow> None \<notin> set fs"
    proof
      assume pos: "\<forall>c \<in> set candles. 0 < close c"
      have "set fs \<subseteq> set ?F \<union> {Some 0}"
        using set_take_subset [of n "?F @ replicate (n - 32) (Some 0)"] by (auto simp add: fs)
      with all_features_defined [OF len wf pos] show "None \<notin> set fs" by auto
    qed
  qed
  show ?thesis using run lfs denominators safe unfolding n_def by blast
qed

theorem epsilon_guarded_features_defined_witness:
  "(\<exists>logged fs. prepareFeatures None (replicate 20 flatCandle) = Inr (logged, fs)
       \<and> None \<notin> set fs)
   \<and> (\<exists>logged fs. prepareFeatures None (replicate 20 zeroCandle) = Inr (logged, fs)
       \<and> length fs = 32
       \<and> (\<forall>i \<in> set epsilonGuarded. fs ! i \<noteq> None)
       \<and> (\<forall>i \<in> set rawDenominators. fs ! i = None))"
proof -
  have len1: "20 \<le> length (replicate 20 flatCandle)" by simp
  have wf1: "\<forall>c \<in> set (replicate 20 flatCandle).
               low c \<le> high c \<and> 0 \<le> volume c \<and> 0 \<le> close c"
    by (simp add: flatCandle_def)
  have pos1: "\<forall>c \<in> set (replicate 20 flatCandle). 0 < close c"
    by (simp add: flatCandle_def)
  have len2: "20 \<le> length (replicate 20 zeroCandle)" by simp
  have wf2: "\<forall>c \<in> set (replicate 20 zeroCandle).
               low c \<le> high c \<and> 0 \<le> volume c \<and> 0 \<le> close c"
    by (simp add: zeroCandle_def)
  have closes: "map close (replicate 20 zeroCandle) = replicate 20 0"
    by (simp add: zeroCandle_def)
  have idx: "indexOr (replicate 20 (0::real)) j 0 = 0" for j
    using indexOr_cases [of "replicate 20 (0::real)" j 0] by auto
  have mean: "meanLast 20 (replicate 20 (0::real)) = 0"
    by (simp add: meanLast_def sliceLast_def sum_list_replicate)
  have e: "ema (replicate 20 (0::real)) k = 0" for k
    by (rule ema_zero) simp
  have raw: "\<forall>i \<in> set rawDenominators. ratioDenominator (replicate 20 zeroCandle) i = 0"
    by (simp add: rawDenominators_def ratioDenominator_def Let_def closes idx mean e
        zeroCandle_def)
  from epsilon_guarded_features_defined [OF len1, of None] wf1 pos1
  have first: "\<exists>logged fs. prepareFeatures None (replicate 20 flatCandle) = Inr (logged, fs)
       \<and> None \<notin> set fs" by blast
  from epsilon_guarded_features_defined [OF len2, of None]
  obtain logged fs where all:
    "prepareFeatures None (replicate 20 zeroCandle) = Inr (logged, fs)
     \<and> length fs = (case None :: ModelMetadata option of
                       Some md \<Rightarrow> n_features md | None \<Rightarrow> 32)
     \<and> (\<forall>i \<in> set (epsilonGuarded @ rawDenominators). i < length fs \<longrightarrow>
           (fs ! i = None \<longleftrightarrow> ratioDenominator (replicate 20 zeroCandle) i = 0))
     \<and> ((\<forall>c \<in> set (replicate 20 zeroCandle).
             low c \<le> high c \<and> 0 \<le> volume c \<and> 0 \<le> close c) \<longrightarrow>
           (\<forall>i \<in> set epsilonGuarded. i < length fs \<longrightarrow> fs ! i \<noteq> None)
           \<and> ((\<forall>c \<in> set (replicate 20 zeroCandle). 0 < close c) \<longrightarrow> None \<notin> set fs))"
    by blast
  have z1: "prepareFeatures None (replicate 20 zeroCandle) = Inr (logged, fs)"
    using all by blast
  have z2: "length fs = 32" using all by simp
  have z3: "\<forall>i \<in> set (epsilonGuarded @ rawDenominators). i < length fs \<longrightarrow>
        (fs ! i = None \<longleftrightarrow> ratioDenominator (replicate 20 zeroCandle) i = 0)"
    using all by blast
  have z4: "\<forall>i \<in> set epsilonGuarded. i < length fs \<longrightarrow> fs ! i \<noteq> None"
    using all wf2 by blast
  note z = z1 z2 z3 z4
  have g: "\<forall>i \<in> set epsilonGuarded. fs ! i \<noteq> None"
    using z(2,4) by (auto simp add: epsilonGuarded_def)
  have r: "\<forall>i \<in> set rawDenominators. fs ! i = None"
  proof
    fix i assume i: "i \<in> set rawDenominators"
    then have "i < length fs" using z(2) by (auto simp add: rawDenominators_def)
    with z(3) i raw show "fs ! i = None" by simp
  qed
  show ?thesis using first z(1,2) g r by blast
qed

text \<open>
  Claim C5 as stated (every ratio feature is guarded, so no history of 20 candles makes
  a feature divide by zero) fails on the claim's own example, a previous close of zero:
  in \<open>zeroCloseHistory\<close> the last candle but one closed at 0, and \<open>return_1\<close>, the
  first feature, is \<open>(100 - 0) / 0\<close>.
\<close>

theorem epsilon_policy_counterexample:
  "length zeroCloseHistory = 20
   \<and> \<not> isl (prepareFeatures None zeroCloseHistory)
   \<and> snd (projr (prepareFeatures None zeroCloseHistory)) ! 0 = None"
proof -
  have len: "length zeroCloseHistory = 20" by (simp add: zeroCloseHistory_def)
  then have long: "20 \<le> length zeroCloseHistory" by simp
  have prev: "indexOr (map close zeroCloseHistory) 18 (close (last zeroCloseHistory)) = 0"
    by (simp add: indexOr_def zeroCloseHistory_def zeroCloseCandle_def nth_append)
  have f0: "computeFeatures zeroCloseHistory (last zeroCloseHistory) ! 0 = None"
    by (simp add: computeFeatures_def Let_def len prev jsdiv_def)
  have run: "prepareFeatures None zeroCloseHistory =
      Inr ([FeaturesPrepared 32],
           take 32 (padFeatures 32 (computeFeatures zeroCloseHistory (last zeroCloseHistory))))"
    using prepareFeatures_long [OF long, of None] by (simp add: Let_def)
  have "snd (projr (prepareFeatures None zeroCloseHistory)) ! 0
          = computeFeatures zeroCloseHistory (last zeroCloseHistory) ! 0"
    by (simp add: run padFeatures_replicate length_computeFeatures)
  with f0 run len show ?thesis by simp
qed

section \<open>Order placement: theorems\<close>

lemma placeBet_dry_run:
  assumes "\<not> IS_PRODUCTION cfg" "token \<noteq> []"
  shows "placeBet cfg env token quoted sizeUsd st =
     (Some \<lparr>orderID = ''dry-run-'' @ showNat (clock env), status = ''simulated''\<rparr>,
      st\<lparr>totalOrders := totalOrders st + 1,
         successfulOrders := successfulOrders st + 1,
         totalVolume := totalVolume st + sizeUsd\<rparr>)"
  using assms by (simp add: placeBet_def Let_def)

lemma placeBet_dry_run_trace:
  assumes "\<not> IS_PRODUCTION cfg"
  shows "brokerTrace (snd (placeBet cfg env token quoted sizeUsd st)) = brokerTrace st"
  using assms by (simp add: placeBet_def Let_def)

lemma placeBet_success_stats:
  assumes "IS_PRODUCTION cfg" "token \<noteq> []" "signReturns env" "postAnswer env = Some r"
    and "status r = ''matched'' \<or> status r = ''live''"
  shows "orderStats (snd (placeBet cfg env token quoted sizeUsd st))
           = (totalOrders st + 1, successfulOrders st + 1, failedOrders st,
              totalVolume st + sizeUsd)"
  using assms by (auto simp add: placeBet_def Let_def orderStats_def)

text \<open>
  Claim C9. With \<open>IS_PRODUCTION\<close> false, \<open>placeBetUp\<close> and \<open>placeBetDown\<close> sign nothing and
  post nothing. For every stake, when the token id of the side is set, they return an
  order response with status \<open>simulated\<close> and an order id that starts with \<open>dry-run-\<close>,
  count one more order and one more successful order and add the stake to the volume:
  the counters end as after a real order that the broker answers with \<open>matched\<close> or
  \<open>live\<close>.
\<close>

theorem dry_run_simulates_success:
  assumes dry: "\<not> IS_PRODUCTION cfg"
  shows "(BTC_UP_TOKEN_ID st \<noteq> [] \<longrightarrow>
            placeBetUp cfg env sizeUsd st =
              (Some \<lparr>orderID = ''dry-run-'' @ showNat (clock env), status = ''simulated''\<rparr>,
               st\<lparr>totalOrders := totalOrders st + 1,
                  successfulOrders := successfulOrders st + 1,
                  totalVolume := totalVolume st + sizeUsd\<rparr>))
       \<and> (BTC_DOWN_TOKEN_ID st \<noteq> [] \<longrightarrow>
            placeBetDown cfg env sizeUsd st =
              (Some \<lparr>orderID = ''dry-run-'' @ showNat (clock env), status = ''simulated''\<rparr>,
               st\<lparr>totalOrders := totalOrders st + 1,
                  successfulOrders := successfulOrders st + 1,
                  totalVolume := totalVolume st + sizeUsd\<rparr>))
       \<and> brokerTrace (snd (placeBetUp cfg env sizeUsd st)) = brokerTrace st
       \<and> brokerTrace (snd (placeBetDown cfg env sizeUsd st)) = brokerTrace st
       \<and> (IS_PRODUCTION cfgP \<and> signReturns envP \<and> postAnswer envP = Some r
            \<and> (status r = ''matched'' \<or> status r = ''live'') \<longrightarrow>
            (BTC_UP_TOKEN_ID st \<noteq> [] \<longrightarrow>
               orderStats (snd (placeBetUp cfg env sizeUsd st))
                 = orderStats (snd (placeBetUp cfgP envP sizeUsd st)))
            \<and> (BTC_DOWN_TOKEN_ID st \<noteq> [] \<longrightarrow>
               orderStats (snd (placeBetDown cfg env sizeUsd st))
                 = orderStats (snd (placeBetDown cfgP envP sizeUsd st))))"
proof (intro conjI impI)
  assume "BTC_UP_TOKEN_ID st \<noteq> []"
  with dry show "placeBetUp cfg env sizeUsd st =
              (Some \<lparr>orderID = ''dry-run-'' @ showNat (clock env), status = ''simulated''\<rparr>,
               st\<lparr>totalOrders := totalOrders st + 1,
                  successfulOrders := successfulOrders st + 1,
                  totalVolume := totalVolume st + sizeUsd\<rparr>)"
    unfolding placeBetUp_def by (rule placeBet_dry_run)
next
  assume "BTC_DOWN_TOKEN_ID st \<noteq> []"
  with dry show "placeBetDown cfg env sizeUsd st =
              (Some \<lparr>orderID = ''dry-run-'' @ showNat (clock env), status = ''simulated''\<rparr>,
               st\<lparr>totalOrders := totalOrders st + 1,
                  successfulOrders := successfulOrders st + 1,
                  totalVolume := totalVolume st + sizeUsd\<rparr>)"
    unfolding placeBetDown_def by (rule placeBet_dry_run)
next
  show "brokerTrace (snd (placeBetUp cfg env sizeUsd st)) = brokerTrace st"
    unfolding placeBetUp_def using dry by (rule placeBet_dry_run_trace)
next
  show "brokerTrace (snd (placeBetDown cfg env sizeUsd st)) = brokerTrace st"
    unfolding placeBetDown_def using dry by (rule placeBet_dry_run_trace)
next
  assume real: "IS_PRODUCTION cfgP \<and> signReturns envP \<and> postAnswer envP = Some r
            \<and> (status r = ''matched'' \<or> status r = ''live'')"
    and tok: "BTC_UP_TOKEN_ID st \<noteq> []"
  have "orderStats (snd (placeBetUp cfgP envP sizeUsd st))
          = (totalOrders st + 1, successfulOrders st + 1, failedOrders st,
             totalVolume st + sizeUsd)"
    unfolding placeBetUp_def using real tok by (intro placeBet_success_stats) auto
  moreover have "orderStats (snd (placeBetUp cfg env sizeUsd st))
          = (totalOrders st + 1, successfulOrders st + 1, failedOrders st,
             totalVolume st + sizeUsd)"
    unfolding placeBetUp_def using dry tok
    by (simp add: placeBet_dry_run orderStats_def)
  ultimately show "orderStats (snd (placeBetUp cfg env sizeUsd st))
                 = orderStats (snd (placeBetUp cfgP envP sizeUsd st))" by simp
next
  assume real: "IS_PRODUCTION cfgP \<and> signReturns envP \<and> postAnswer envP = Some r
            \<and> (status r = ''matched'' \<or> status r = ''live'')"
    and tok: "BTC_DOWN_TOKEN_ID st \<noteq> []"
  have "orderStats (snd (placeBetDown cfgP envP sizeUsd st))
          = (totalOrders st + 1, successfulOrders st + 1, failedOrders st,
             totalVolume st + sizeUsd)"
    unfolding placeBetDown_def using real tok by (intro placeBet_success_stats) auto
  moreover have "orderStats (snd (placeBetDown cfg env sizeUsd st))
          = (totalOrders st + 1, successfulOrders st + 1, failedOrders st,
             totalVolume st + sizeUsd)"
    unfolding placeBetDown_def using dry tok
    by (simp add: placeBet_dry_run orderStats_def)
  ultimately show "orderStats (snd (placeBetDown cfg env sizeUsd st))
                 = orderStats (snd (placeBetDown cfgP envP sizeUsd st))" by simp
qed

theorem dry_run_simulates_success_witness:
  "fst (placeBetUp devConfig matchingBroker 50 marketFound)
     = Some \<lparr>orderID = ''dry-run-7'', status = ''simulated''\<rparr>
   \<and> fst (placeBetDown devConfig matchingBroker 50 marketFound)
     = Some \<lparr>orderID = ''dry-run-7'', status = ''simulated''\<rparr>
   \<and> orderStats (snd (placeBetUp devConfig matchingBroker 50 marketFound)) = (1, 1, 0, 50)
   \<and> brokerTrace (snd (placeBetUp devConfig matchingBroker 50 marketFound)) = []
   \<and> orderStats (snd (placeBetUp prodConfig matchingBroker 50 marketFound)) = (1, 1, 0, 50)
   \<and> brokerTrace (snd (placeBetUp prodConfig matchingBroker 50 marketFound)) \<noteq> []"
proof -
  have dry: "\<not> IS_PRODUCTION devConfig" by (simp add: devConfig_def)
  have seven: "showNat 7 = ''7''" by (subst showNat.simps) simp
  have prod: "IS_PRODUCTION prodConfig \<and> signReturns matchingBroker
      \<and> postAnswer matchingBroker = Some \<lparr>orderID = ''0xabc'', status = ''matched''\<rparr>
      \<and> (status \<lparr>orderID = ''0xabc'', status = ''matched''\<rparr> = ''matched''
           \<or> status \<lparr>orderID = ''0xabc'', status = ''matched''\<rparr> = ''live'')"
    by (simp add: prodConfig_def devConfig_def matchingBroker_def)
  have tok: "BTC_UP_TOKEN_ID marketFound \<noteq> []" "BTC_DOWN_TOKEN_ID marketFound \<noteq> []"
    by (simp_all add: marketFound_def)
  have trace: "brokerTrace (snd (placeBetUp prodConfig matchingBroker 50 marketFound)) \<noteq> []"
    by (simp add: placeBetUp_def placeBet_def Let_def prodConfig_def devConfig_def
        matchingBroker_def marketFound_def getMarketPrices_def)
  note T = dry_run_simulates_success [OF dry, of marketFound matchingBroker 50 prodConfig
      matchingBroker "\<lparr>orderID = ''0xabc'', status = ''matched''\<rparr>"]
  have up: "placeBetUp devConfig matchingBroker 50 marketFound =
      (Some \<lparr>orderID = ''dry-run-'' @ showNat (clock matchingBroker), status = ''simulated''\<rparr>,
       marketFound\<lparr>totalOrders := totalOrders marketFound + 1,
                   successfulOrders := successfulOrders marketFound + 1,
                   totalVolume := totalVolume marketFound + 50\<rparr>)"
    using T tok by blast
  have down: "placeBetDown devConfig matchingBroker 50 marketFound =
      (Some \<lparr>orderID = ''dry-run-'' @ showNat (clock matchingBroker), status = ''simulated''\<rparr>,
       marketFound\<lparr>totalOrders := totalOrders marketFound + 1,
                   successfulOrders := successfulOrders marketFound + 1,
                   totalVolume := totalVolume marketFound + 50\<rparr>)"
    using T tok by blast
  have same: "orderStats (snd (placeBetUp devConfig matchingBroker 50 marketFound))
      = orderStats (snd (placeBetUp prodConfig matchingBroker 50 marketFound))"
    using T prod tok by blast
  have clk: "clock matchingBroker = 7" by (simp add: matchingBroker_def)
  have stats: "orderStats (snd (placeBetUp devConfig matchingBroker 50 marketFound)) = (1, 1, 0, 50)"
    unfolding up by (simp add: orderStats_def marketFound_def)
  have tr: "brokerTrace (snd (placeBetUp devConfig matchingBroker 50 marketFound)) = []"
    unfolding up by (simp add: marketFound_def)
  show ?thesis
    using stats tr trace same by (simp add: up down clk seven)
qed

section \<open>The decision cycle: theorems\<close>

subsection \<open>The statements from step 3 on\<close>

lemma placeBet_tokens:
  "BTC_UP_TOKEN_ID (snd (placeBet cfg env token quoted sizeUsd st)) = BTC_UP_TOKEN_ID st
   \<and> BTC_DOWN_TOKEN_ID (snd (placeBet cfg env token quoted sizeUsd st)) = BTC_DOWN_TOKEN_ID st"
  by (simp add: placeBet_def Let_def split: option.split)

lemma betSide_effects:
  "apiErrorCount (counters (snd (betSide cfg inp dir prob quoted w)))
      = apiErrorCount (counters w)
          + (if isFailure (fst (betSide cfg inp dir prob quoted w)) then 1 else 0)
   \<and> lastTradedWindowId (counters (snd (betSide cfg inp dir prob quoted w)))
      = (if isAnswered (fst (betSide cfg inp dir prob quoted w)) then windowIdAtRecord inp
         else lastTradedWindowId (counters w))
   \<and> (\<not> isSubmission (fst (betSide cfg inp dir prob quoted w))
        \<longrightarrow> poly (snd (betSide cfg inp dir prob quoted w)) = poly w)
   \<and> feed (snd (betSide cfg inp dir prob quoted w)) = feed w
   \<and> modelMetadata (snd (betSide cfg inp dir prob quoted w)) = modelMetadata w
   \<and> BTC_UP_TOKEN_ID (poly (snd (betSide cfg inp dir prob quoted w))) = BTC_UP_TOKEN_ID (poly w)
   \<and> BTC_DOWN_TOKEN_ID (poly (snd (betSide cfg inp dir prob quoted w)))
        = BTC_DOWN_TOKEN_ID (poly w)"
  by (simp add: betSide_def Let_def skipCycle_def recordTrade_def recordApiError_def
      placeBetUp_def placeBetDown_def placeBet_tokens
      split: option.split direction.split)

lemma cycleEffects_skip:
  assumes "apiErrorCount (counters w1) = apiErrorCount (counters w)"
    "lastTradedWindowId (counters w1) = lastTradedWindowId (counters w)"
    "poly w1 = poly w" "feed w1 = feed w" "modelMetadata w1 = modelMetadata w"
  shows "cycleEffects inp w (skipCycle reason w1)"
  using assms by (simp add: cycleEffects_def skipCycle_def)

lemma cycleEffects_bet:
  assumes "apiErrorCount (counters w1) = apiErrorCount (counters w)"
    "lastTradedWindowId (counters w1) = lastTradedWindowId (counters w)"
    "poly w1 = poly w" "feed w1 = feed w" "modelMetadata w1 = modelMetadata w"
  shows "cycleEffects inp w (betSide cfg inp dir prob quoted w1)"
  using assms betSide_effects [of cfg inp dir prob quoted w1]
  by (simp add: cycleEffects_def)

lemma tradeFromPrediction_effects:
  "cycleEffects inp w (tradeFromPrediction cfg inp candles w)"
  unfolding tradeFromPrediction_def Let_def
  by (auto split: sum.split intro!: cycleEffects_skip cycleEffects_bet)

lemma tradeFromPrediction_upCycle:
  assumes sign: "signReturns env"
  shows "fst (tradeFromPrediction prodConfig (upCycle W env) (replicate 20 livelyCandle)
                tradingWorld)
           = Submitted Up 100 (postAnswer env)"
proof -
  have long: "20 \<le> length (replicate 20 livelyCandle)" by simp
  have pred: "predict (modelMetadata tradingWorld) (runModel (upCycle W env))
                (replicate 20 livelyCandle) = Inr 0.9"
    using prepareFeatures_long [OF long, of None]
    by (simp add: predict_def Let_def upCycle_def tradingWorld_def)
  have prices: "getMarketPrices (marketAnswer (upCycle W env)) (poly tradingWorld) = (0.5, 0.5)"
    by (simp add: getMarketPrices_def upCycle_def tradingWorld_def marketFound_def)
  have vol: "candleRangeTooLow (last (replicate 20 livelyCandle)) = False"
    by (simp add: candleRangeTooLow_def livelyCandle_def)
  have size: "calculateBetSize (BANKROLL prodConfig) (9 / 10) (1 / 2) = 100"
    by (simp add: calculateBetSize_def kellyBetSize_def Let_def prodConfig_def devConfig_def)
  have liq: "sufficient (checkLiquidity (Some [(1 / 2, 1000)]) 100 (1 / 100))"
    by (simp add: checkLiquidity_def Let_def)
  have conf: "MIN_CONFIDENCE_UP prodConfig = 0.55"
    by (simp add: prodConfig_def devConfig_def)
  have prod: "IS_PRODUCTION prodConfig" by (simp add: prodConfig_def)
  have token: "CONFIG_BTC_UP_TOKEN_ID prodConfig = ''1001''"
    by (simp add: prodConfig_def devConfig_def)
  have place: "fst (placeBetUp prodConfig env 100 st) = postAnswer env"
    if "BTC_UP_TOKEN_ID st = ''1001''" for st
    using that sign prod
    by (simp add: placeBetUp_def placeBet_def Let_def split: option.split)
  have bet: "fst (betSide prodConfig (upCycle W env) Up (9 / 10) (1 / 2) w')
               = Submitted Up 100 (postAnswer env)"
    if "BTC_UP_TOKEN_ID (poly w') = ''1001''" for w'
    using place [OF that] liq
    by (simp add: betSide_def Let_def size upCycle_def split: option.split)
  have up: "BTC_UP_TOKEN_ID (poly tradingWorld) = ''1001''"
    by (simp add: tradingWorld_def marketFound_def)
  show ?thesis
    apply (simp only: tradeFromPrediction_def Let_def pred sum.case prices fst_conv snd_conv
        vol if_False)
    apply (simp add: conf bet up)
    done
qed

subsection \<open>The cycle as it is written\<close>

lemma resolveName_getNext15MinWindowStart:
  "resolveName ''getNext15MinWindowStart'' = Inr ()"
  by (simp add: resolveName_def indexScope_def)

lemma resolveName_get15MinWindowStart:
  "resolveName ''get15MinWindowStart'' = Inl (ReferenceError ''get15MinWindowStart'')"
  by (simp add: resolveName_def indexScope_def)

lemma executeTrade_unfold:
  "executeTrade cfg inp w =
     (case canTrade inp w of
        Some reason \<Rightarrow>
          skipCycle (NotAllowed reason)
            (w\<lparr>counters := (counters w)\<lparr>totalPredictions := totalPredictions (counters w) + 1\<rparr>\<rparr>)
      | None \<Rightarrow>
          if length (get15MinCandles (feed w)) < 20
          then skipCycle (TooFewCandles (length (get15MinCandles (feed w))))
                 (w\<lparr>counters := (counters w)\<lparr>totalPredictions := totalPredictions (counters w) + 1\<rparr>\<rparr>)
          else (Threw (ReferenceError ''get15MinWindowStart''),
                w\<lparr>counters := (counters w)\<lparr>totalPredictions := totalPredictions (counters w) + 1\<rparr>\<rparr>))"
proof -
  have "canTrade inp
          (w\<lparr>counters := (counters w)\<lparr>totalPredictions := totalPredictions (counters w) + 1\<rparr>\<rparr>)
        = canTrade inp w"
    by (simp add: canTrade_def)
  then show ?thesis
    by (simp add: executeTrade_def Let_def resolveName_getNext15MinWindowStart
        resolveName_get15MinWindowStart split: option.split)
qed



lemma executeTrade_throws:
  assumes "canTrade inp w = None" and "20 \<le> length (get15MinCandles (feed w))"
  shows "fst (executeTrade cfg inp w) = Threw (ReferenceError ''get15MinWindowStart'')"
  using assms by (simp add: executeTrade_unfold)

lemma runCycles_Cons:
  "runCycles cfg (inp # inps) w =
     (fst (executeTrade cfg inp w) # fst (runCycles cfg inps (snd (executeTrade cfg inp w))),
      snd (runCycles cfg inps (snd (executeTrade cfg inp w))))"
  by (simp add: runCycles.simps(2) Let_def)

lemma length_runCycles: "length (fst (runCycles cfg inps w)) = length inps"
  by (induction inps arbitrary: w) (simp_all add: runCycles_Cons)






lemma canTrade_tradingWorld:
  assumes "feed w = feed tradingWorld" and "apiErrorCount (counters w) < 3"
    and "lastTradedWindowId (counters w) \<noteq> W"
  shows "canTrade (upCycle W env) w = None \<and> 20 \<le> length (get15MinCandles (feed w))"
  using assms
  by (simp add: canTrade_def MAX_API_ERRORS_def upCycle_def Let_def isPriceFeedHealthy_def
      get15MinCandles_def tradingWorld_def initialFeed_def)

lemma upCycle_throws:
  assumes "feed w = feed tradingWorld" and "apiErrorCount (counters w) < 3"
    and "lastTradedWindowId (counters w) \<noteq> W"
  shows "fst (executeTrade cfg (upCycle W env) w) = Threw (ReferenceError ''get15MinWindowStart'')"
  using canTrade_tradingWorld [OF assms, of env] by (simp add: executeTrade_throws)






text \<open>
  Claim C10. Two runs that differ only in the configured \<open>MAX_KELLY_FRACTION\<close> behave
  the same: every decision cycle is the same in both, and so are the statements from
  step 3 on, with every bet size in them. \<open>calculateBetSize\<close> takes the bankroll, the
  probability and the price and nothing else, and sizes with the literal shrinkage
  0.25 and the literal cap 0.10.
\<close>

theorem sizing_ignores_configured_kelly_fraction:
  "executeTrade (cfg\<lparr>MAX_KELLY_FRACTION := v\<rparr>) inp w = executeTrade cfg inp w
   \<and> tradeFromPrediction (cfg\<lparr>MAX_KELLY_FRACTION := v\<rparr>) inp candles w
       = tradeFromPrediction cfg inp candles w
   \<and> calculateBetSize bankroll probWin marketPrice
       = bankroll * kellyBetSize probWin marketPrice 0.25 0.10"
proof (intro conjI)
  have place: "placeBet (cfg\<lparr>MAX_KELLY_FRACTION := v\<rparr>) env token quoted sizeUsd st
               = placeBet cfg env token quoted sizeUsd st" for env token quoted sizeUsd st
    by (simp add: placeBet_def Let_def)
  have bet: "betSide (cfg\<lparr>MAX_KELLY_FRACTION := v\<rparr>) inp dir prob quoted w'
               = betSide cfg inp dir prob quoted w'" for dir prob quoted w'
    by (cases dir) (simp_all add: betSide_def placeBetUp_def placeBetDown_def place Let_def)
  show cont: "tradeFromPrediction (cfg\<lparr>MAX_KELLY_FRACTION := v\<rparr>) inp cs w'
                = tradeFromPrediction cfg inp cs w'" for cs w'
    by (simp add: tradeFromPrediction_def bet Let_def cong: sum.case_cong if_cong)
  show "executeTrade (cfg\<lparr>MAX_KELLY_FRACTION := v\<rparr>) inp w = executeTrade cfg inp w"
    by (simp add: executeTrade_def cont Let_def cong: option.case_cong sum.case_cong if_cong)
  show "calculateBetSize bankroll probWin marketPrice
       = bankroll * kellyBetSize probWin marketPrice 0.25 0.10"
    by (simp add: calculateBetSize_def)
qed

theorem sizing_ignores_configured_kelly_fraction_witness:
  "fst (executeTrade (prodConfig\<lparr>MAX_KELLY_FRACTION := 1\<rparr>)
         (upCycle ''20260101_0000'' matchingBroker) tradingWorld)
     = Threw (ReferenceError ''get15MinWindowStart'')
   \<and> fst (tradeFromPrediction (prodConfig\<lparr>MAX_KELLY_FRACTION := 1\<rparr>)
         (upCycle ''20260101_0000'' matchingBroker) (replicate 20 livelyCandle) tradingWorld)
     = Submitted Up 100 (Some \<lparr>orderID = ''0xabc'', status = ''matched''\<rparr>)
   \<and> calculateBetSize 1000 0.9 0.5 = 100"
proof -
  let ?c = "upCycle ''20260101_0000'' matchingBroker"
  have t: "fst (executeTrade prodConfig ?c tradingWorld)
             = Threw (ReferenceError ''get15MinWindowStart'')"
    by (rule upCycle_throws) (simp_all add: tradingWorld_def freshCounters_def)
  have sign: "signReturns matchingBroker"
    and post: "postAnswer matchingBroker = Some \<lparr>orderID = ''0xabc'', status = ''matched''\<rparr>"
    by (simp_all add: matchingBroker_def)
  have s: "fst (tradeFromPrediction prodConfig ?c (replicate 20 livelyCandle) tradingWorld)
             = Submitted Up 100 (Some \<lparr>orderID = ''0xabc'', status = ''matched''\<rparr>)"
    using tradeFromPrediction_upCycle [OF sign, of "''20260101_0000''"] post by simp
  have k: "kellyBetSize (9 / 10) (1 / 2) (1 / 4) (1 / 10) = 1 / 10"
    by (simp add: kellyBetSize_def Let_def)
  from sizing_ignores_configured_kelly_fraction
         [where cfg = prodConfig and v = 1 and inp = ?c
            and w = tradingWorld and candles = "replicate 20 livelyCandle"
            and bankroll = 1000 and probWin = "0.9" and marketPrice = "0.5"]
    t s k
  show ?thesis by simp
qed

end
